theory Spec2Isabelle
  imports Main
begin

section \<open>LaTeX2AI: the global settings object (l2a\_global.cpp)\<close>

text \<open>
  A shallow embedding of \<^verbatim>\<open>L2A::GLOBAL::Global\<close>: its six persisted fields, the
  encoding to and decoding from a parameter list, the two validation predicates, the two
  interactive repair setters, the constructor and the guarded accessors of the singleton.

  Everything the file calls but does not define (the Illustrator SDK, the process launcher,
  the file system, the dialogs, the parameter list class and the string helpers) is either a
  field of the record \<open>Collaborators\<close>, a state transformer on an abstract host state
  \<open>'w\<close>, or a small definition marked as modelled from the specification.
\<close>

subsection \<open>Strings, paths, exceptions\<close>

text \<open>\<^verbatim>\<open>ai::UnicodeString\<close> is a \<open>string\<close>. \<^verbatim>\<open>ai::FilePath\<close> is a type of the SDK;
  it is represented by the full path it holds.\<close>

datatype FilePath = FilePath string

fun GetFullPath :: "FilePath \<Rightarrow> string" where
  "GetFullPath (FilePath s) = s"

fun IsEmpty :: "FilePath \<Rightarrow> bool" where
  "IsEmpty (FilePath s) = (s = [])"

text \<open>Modelled from the spec: \<^verbatim>\<open>ai::FilePath::AddComponent\<close> of the SDK is missing; the
  specification writes the result as \<^verbatim>\<open>"<dir>/<binary>"\<close>.\<close>

fun AddComponent :: "string \<Rightarrow> FilePath \<Rightarrow> FilePath" where
  "AddComponent c (FilePath s) = FilePath (s @ ''/'' @ c)"

text \<open>Exceptions: \<^verbatim>\<open>L2A::ERR::Exception\<close> (raised by \<^verbatim>\<open>l2a_error\<close> and by
  \<^verbatim>\<open>l2a_check_ai_error\<close>), any other C++ exception, and the dereference of a null
  pointer, which the model keeps apart from both.\<close>

datatype exn = L2A_Exception string | Foreign_Exception string | Null_Dereference

datatype AIErr = kNoErr | kCanceledErr | kOtherErr nat

subsection \<open>The parameter list\<close>

text \<open>Modelled from the spec: the class \<^verbatim>\<open>L2A::UTIL::ParameterList\<close> (l2a\_parameter\_list)
  is missing. The specification describes it as a flat key/value structure whose values are
  strings, integers standing for booleans, and paths stored as strings. Every value is kept
  as a string; the conversions between integers and strings are collaborators (see below).\<close>

type_synonym ParameterList = "string \<rightharpoonup> string"

text \<open>Modelled from the spec: \<^verbatim>\<open>ParameterList::OptionExists\<close> is missing; a key exists if
  the structure holds a value for it.\<close>

definition OptionExists :: "string \<Rightarrow> ParameterList \<Rightarrow> bool" where
  "OptionExists key pl = (pl key \<noteq> None)"

text \<open>Modelled from the spec: \<^verbatim>\<open>ParameterList::GetStringOption\<close> is missing; it returns
  the value stored for the key. Reading a key that is absent has no value to return; the
  model makes it an exception, so that the existence guards of the callers are visible.\<close>

definition GetStringOption :: "string \<Rightarrow> ParameterList \<Rightarrow> exn + string" where
  "GetStringOption key pl =
     (case pl key of None \<Rightarrow> Inl (L2A_Exception ''option not found'') | Some v \<Rightarrow> Inr v)"

text \<open>Modelled from the spec: \<^verbatim>\<open>ParameterList::SetOption\<close> is missing; it stores the value
  under the key, replacing an older one. The overload for a path stores the full path.\<close>

definition SetOption :: "string \<Rightarrow> string \<Rightarrow> ParameterList \<Rightarrow> ParameterList" where
  "SetOption key v pl = pl(key \<mapsto> v)"

definition SetOption_FilePath :: "string \<Rightarrow> FilePath \<Rightarrow> ParameterList \<Rightarrow> ParameterList" where
  "SetOption_FilePath key p pl = SetOption key (GetFullPath p) pl"

subsection \<open>Collaborators\<close>

text \<open>
  The services the settings object consumes. \<open>'w\<close> is the state of the host (file system,
  installed programs, the user in front of the dialogs); a service that can change it or
  whose answer depends on it takes and returns it.
  \<^item> \<open>ExecuteCommandLine\<close>: run a command line and capture its output, or raise.
  \<^item> \<open>OKCancelAlert\<close>, \<open>GetFileDialog\<close>, \<open>GetDirectoryDialog\<close>, \<open>WarningAlert\<close>: the
    dialogs of \<^verbatim>\<open>sAIUser\<close>; the two pickers get the current path and return the
    error code together with the path they leave behind.
  \<^item> the file system services of \<^verbatim>\<open>L2A::UTIL\<close>.
  \<^item> \<open>ParameterList_of_xml\<close>: the constructor of a parameter list from a document, which
    raises on a malformed one; \<open>ToXMLString\<close>: the encoder, with the root element name.
  \<^item> \<open>IntegerToString\<close>, \<open>StringToInteger\<close>: the integer conversions the parameter list
    uses for integer options; total functions.
  \<^item> \<open>WIN_ENV\<close>: the compile-time platform switch.
\<close>

record 'w Collaborators =
  ExecuteCommandLine :: "string \<Rightarrow> 'w \<Rightarrow> (exn + string) \<times> 'w"
  OKCancelAlert :: "string \<Rightarrow> 'w \<Rightarrow> bool \<times> 'w"
  GetFileDialog :: "string \<Rightarrow> FilePath \<Rightarrow> 'w \<Rightarrow> (AIErr \<times> FilePath) \<times> 'w"
  GetDirectoryDialog :: "string \<Rightarrow> FilePath \<Rightarrow> 'w \<Rightarrow> (AIErr \<times> FilePath) \<times> 'w"
  WarningAlert :: "string \<Rightarrow> 'w \<Rightarrow> 'w"
  IsDirectory :: "FilePath \<Rightarrow> 'w \<Rightarrow> bool"
  IsFile :: "FilePath \<Rightarrow> 'w \<Rightarrow> bool"
  ReadFileUTF8 :: "FilePath \<Rightarrow> 'w \<Rightarrow> string"
  RemoveFile :: "FilePath \<Rightarrow> 'w \<Rightarrow> 'w"
  CreateDirectoryL2A :: "FilePath \<Rightarrow> 'w \<Rightarrow> 'w"
  ClearTemporaryDirectory :: "'w \<Rightarrow> 'w"
  CheckGithubVersion :: "'w \<Rightarrow> 'w"
  GetApplicationDataDirectory :: "'w \<Rightarrow> FilePath"
  GetGhostScriptCommand :: "'w \<Rightarrow> string"
  ParameterList_of_xml :: "string \<Rightarrow> exn + ParameterList"
  ToXMLString :: "ParameterList \<Rightarrow> string \<Rightarrow> string"
  IntegerToString :: "int \<Rightarrow> string"
  StringToInteger :: "string \<Rightarrow> int"
  WIN_ENV :: bool

text \<open>Modelled from the spec: the overload of \<^verbatim>\<open>SetOption\<close> for an integer and
  \<^verbatim>\<open>ParameterList::GetIntOption\<close> are missing; an integer is stored as the string the
  conversion makes of it, and read back as the integer the conversion from strings
  makes of the stored string.\<close>

definition SetOption_int ::
  "'w Collaborators \<Rightarrow> string \<Rightarrow> int \<Rightarrow> ParameterList \<Rightarrow> ParameterList" where
  "SetOption_int E key i pl = SetOption key (IntegerToString E i) pl"

definition GetIntOption :: "'w Collaborators \<Rightarrow> string \<Rightarrow> ParameterList \<Rightarrow> exn + int" where
  "GetIntOption E key pl =
     (case GetStringOption key pl of Inl e \<Rightarrow> Inl e | Inr v \<Rightarrow> Inr (StringToInteger E v))"

text \<open>The C++ conversions between \<^verbatim>\<open>bool\<close> and \<^verbatim>\<open>int\<close>.\<close>

definition int_of_bool :: "bool \<Rightarrow> int" where
  "int_of_bool b = (if b then 1 else 0)"

definition bool_of_int :: "int \<Rightarrow> bool" where
  "bool_of_int i = (i \<noteq> 0)"

subsection \<open>The settings object\<close>

record Global =
  is_testing_' :: bool
  application_data_path_' :: FilePath
  l2a_item_last_input_' :: FilePath
  latex_bin_path_' :: FilePath
  latex_engine_' :: string
  latex_command_options_' :: string
  gs_command_' :: string
  warning_boundary_boxes_' :: bool
  warning_ai_not_saved_' :: bool

definition ToParameterList :: "'w Collaborators \<Rightarrow> Global \<Rightarrow> ParameterList \<Rightarrow> ParameterList" where
  "ToParameterList E g parameter_list =
     SetOption_int E ''warning_ai_not_saved'' (int_of_bool (warning_ai_not_saved_' g))
      (SetOption_int E ''warning_boundary_boxes'' (int_of_bool (warning_boundary_boxes_' g))
        (SetOption ''gs_command'' (gs_command_' g)
          (SetOption ''latex_command_options'' (latex_command_options_' g)
            (SetOption ''latex_engine'' (latex_engine_' g)
              (SetOption_FilePath ''latex_bin_path'' (latex_bin_path_' g) parameter_list)))))"

definition ToString :: "'w Collaborators \<Rightarrow> Global \<Rightarrow> string" where
  "ToString E g = ToXMLString E (ToParameterList E g Map.empty) ''LaTeX2AI_options''"

definition GetDefaultParameterList :: "'w Collaborators \<Rightarrow> ParameterList \<Rightarrow> ParameterList" where
  "GetDefaultParameterList E parameter_list =
     SetOption_int E ''warning_ai_not_saved'' (int_of_bool True)
      (SetOption_int E ''warning_boundary_boxes'' (int_of_bool True)
        (SetOption ''gs_command'' ''''
          (SetOption ''latex_command_options''
              ''-interaction nonstopmode -halt-on-error -file-line-error''
            (SetOption ''latex_engine'' ''pdflatex''
              (SetOption ''latex_bin_path'' '''' parameter_list)))))"

text \<open>
  \<^verbatim>\<open>SetFromParameterList\<close> is six blocks of the same shape,
  \<^verbatim>\<open>if (OptionExists(key)) field = Get...Option(key); else set_all = false;\<close>.
  A block is a transformer of the pair of \<^verbatim>\<open>set_all\<close> (or the exception in flight)
  and the object; an exception leaves the object as it was when it was raised.
\<close>

definition read_string_option ::
  "string \<Rightarrow> ParameterList \<Rightarrow> (string \<Rightarrow> Global \<Rightarrow> Global) \<Rightarrow>
     (exn + bool) \<times> Global \<Rightarrow> (exn + bool) \<times> Global" where
  "read_string_option key pl assign st =
     (case st of
        (Inl e, g) \<Rightarrow> (Inl e, g)
      | (Inr set_all, g) \<Rightarrow>
          if OptionExists key pl then
            (case GetStringOption key pl of
               Inl e \<Rightarrow> (Inl e, g)
             | Inr v \<Rightarrow> (Inr set_all, assign v g))
          else (Inr False, g))"

definition read_int_option ::
  "'w Collaborators \<Rightarrow> string \<Rightarrow> ParameterList \<Rightarrow> (int \<Rightarrow> Global \<Rightarrow> Global) \<Rightarrow>
     (exn + bool) \<times> Global \<Rightarrow> (exn + bool) \<times> Global" where
  "read_int_option E key pl assign st =
     (case st of
        (Inl e, g) \<Rightarrow> (Inl e, g)
      | (Inr set_all, g) \<Rightarrow>
          if OptionExists key pl then
            (case GetIntOption E key pl of
               Inl e \<Rightarrow> (Inl e, g)
             | Inr i \<Rightarrow> (Inr set_all, assign i g))
          else (Inr False, g))"

definition SetFromParameterList ::
  "'w Collaborators \<Rightarrow> ParameterList \<Rightarrow> Global \<Rightarrow> (exn + bool) \<times> Global" where
  "SetFromParameterList E parameter_list g =
     read_int_option E ''warning_ai_not_saved'' parameter_list
        (\<lambda>i g. g\<lparr>warning_ai_not_saved_' := bool_of_int i\<rparr>)
      (read_int_option E ''warning_boundary_boxes'' parameter_list
          (\<lambda>i g. g\<lparr>warning_boundary_boxes_' := bool_of_int i\<rparr>)
        (read_string_option ''gs_command'' parameter_list
            (\<lambda>v g. g\<lparr>gs_command_' := v\<rparr>)
          (read_string_option ''latex_command_options'' parameter_list
              (\<lambda>v g. g\<lparr>latex_command_options_' := v\<rparr>)
            (read_string_option ''latex_engine'' parameter_list
                (\<lambda>v g. g\<lparr>latex_engine_' := v\<rparr>)
              (read_string_option ''latex_bin_path'' parameter_list
                  (\<lambda>v g. g\<lparr>latex_bin_path_' := FilePath v\<rparr>)
                (Inr True, g))))))"

subsection \<open>Running a command\<close>

text \<open>The state the model threads: the host, and the list of the command lines this file has
  passed to \<^verbatim>\<open>L2A::UTIL::ExecuteCommandLine\<close>, oldest first. The list is the spy of the
  specification's tests; nothing reads it.\<close>

record 'w World =
  exec_calls :: "string list"
  host :: 'w

definition run_command ::
  "'w Collaborators \<Rightarrow> string \<Rightarrow> 'w World \<Rightarrow> (exn + string) \<times> 'w World" where
  "run_command E command s =
     (case ExecuteCommandLine E command (host s) of
        (r, h) \<Rightarrow> (r, \<lparr>exec_calls = exec_calls s @ [command], host = h\<rparr>))"

text \<open>\<^verbatim>\<open>output.find(marker) != npos\<close>: the marker occurs in the output as a contiguous
  run of characters.\<close>

fun starts_with :: "string \<Rightarrow> string \<Rightarrow> bool" where
  "starts_with [] ys = True"
| "starts_with (x # xs) [] = False"
| "starts_with (x # xs) (y # ys) = (x = y \<and> starts_with xs ys)"

fun find_not_npos :: "string \<Rightarrow> string \<Rightarrow> bool" where
  "find_not_npos marker [] = (marker = [])"
| "find_not_npos marker (c # cs) = (starts_with marker (c # cs) \<or> find_not_npos marker cs)"

definition dquote :: string where
  "dquote = [CHR 0x22]"

subsection \<open>The validation predicates\<close>

text \<open>Both are \<^verbatim>\<open>const\<close> methods: they get the object and return no new one. Each ends
  in the same \<^verbatim>\<open>try { run; return find(marker) != npos; } catch (...) { return false; }\<close>.\<close>

definition probe_command ::
  "'w Collaborators \<Rightarrow> string \<Rightarrow> string \<Rightarrow> 'w World \<Rightarrow> bool \<times> 'w World" where
  "probe_command E command marker s =
     (case run_command E command s of
        (Inr output, s') \<Rightarrow> (find_not_npos marker output, s')
      | (Inl e, s') \<Rightarrow> (False, s'))"

definition CheckGhostscriptCommand ::
  "'w Collaborators \<Rightarrow> Global \<Rightarrow> string \<Rightarrow> 'w World \<Rightarrow> bool \<times> 'w World" where
  "CheckGhostscriptCommand E g gs_command s =
     (let full_gs_command = dquote @ gs_command @ dquote @ '' -v''
      in probe_command E full_gs_command '' Ghostscript '' s)"

definition CheckLatexCommand ::
  "'w Collaborators \<Rightarrow> Global \<Rightarrow> FilePath \<Rightarrow> 'w World \<Rightarrow> bool \<times> 'w World" where
  "CheckLatexCommand E g path_latex s =
     (if IsDirectory E path_latex (host s) then
        (let exe_path =
               AddComponent (if WIN_ENV E then ''pdflatex.exe'' else ''pdflatex'') path_latex;
             command_latex = dquote @ GetFullPath exe_path @ dquote
         in probe_command E (command_latex @ '' -version'') ''pdfTeX'' s)
      else if IsEmpty path_latex then
        probe_command E (''pdflatex'' @ '' -version'') ''pdfTeX'' s
      else (False, s))"

subsection \<open>The repair setters\<close>

text \<open>Modelled from the spec: the macro \<^verbatim>\<open>l2a_check_ai_error\<close> (l2a\_error) is missing; any
  error code of a dialog other than the user's cancel is fatal and is propagated.\<close>

definition l2a_check_ai_error :: "AIErr \<Rightarrow> exn + unit" where
  "l2a_check_ai_error err =
     (if err = kNoErr then Inr () else Inl (L2A_Exception ''Illustrator error''))"

text \<open>How control leaves a piece of code with \<^verbatim>\<open>return\<close> statements in it: it runs on to
  the next statement (with the values of the local variables), the function returns, or an
  exception is raised.\<close>

datatype 'a flow = Next 'a | Return bool | Throw exn

definition gs_form_string :: string where
  "gs_form_string =
     ''The path to the ghostscript executable (gswin32c.exe, gswin64c.exe) seems to be wrong. Please select the correct path, otherwise LaTeX2AI can not be used!''"

definition latex_form_string :: string where
  "latex_form_string =
     ''The path to the folder with the LaTeX executables (pdflatex.exe, ...) seems to be wrong. Please select the correct path, otherwise LaTeX2AI can not be used!''"

text \<open>The body of the \<^verbatim>\<open>while\<close> loop of \<^verbatim>\<open>SetGhostscriptCommand\<close> (lines 148 to 163):
  the confirmation, the file picker, and the new values of \<^verbatim>\<open>gs_command\<close> and
  \<^verbatim>\<open>gs_path\<close>.\<close>

definition SetGhostscriptCommand_body ::
  "'w Collaborators \<Rightarrow> FilePath \<Rightarrow> 'w World \<Rightarrow> (string \<times> FilePath) flow \<times> 'w World" where
  "SetGhostscriptCommand_body E gs_path s =
     (case OKCancelAlert E gs_form_string (host s) of
        (form_result, h2) \<Rightarrow>
          if \<not> form_result then (Return False, s\<lparr>host := h2\<rparr>)
          else
            (case GetFileDialog E ''Select *.exe for the forms Application'' gs_path h2 of
               ((err, gs_path'), h3) \<Rightarrow>
                 if err = kCanceledErr then (Return False, s\<lparr>host := h3\<rparr>)
                 else
                   (case l2a_check_ai_error err of
                      Inl e \<Rightarrow> (Throw e, s\<lparr>host := h3\<rparr>)
                    | Inr u \<Rightarrow> (Next (GetFullPath gs_path', gs_path'), s\<lparr>host := h3\<rparr>))))"

text \<open>The loop may go on as long as the user picks files that fail the check. The first
  argument bounds the number of times the loop condition is evaluated; \<open>None\<close> says that
  the bound was reached with the loop still running.\<close>

fun SetGhostscriptCommand_loop ::
  "'w Collaborators \<Rightarrow> nat \<Rightarrow> Global \<Rightarrow> string \<Rightarrow> FilePath \<Rightarrow> 'w World \<Rightarrow>
     (string flow \<times> 'w World) option" where
  "SetGhostscriptCommand_loop E 0 g gs_command gs_path s = None"
| "SetGhostscriptCommand_loop E (Suc n) g gs_command gs_path s =
     (case CheckGhostscriptCommand E g gs_command s of
        (True, s1) \<Rightarrow> Some (Next gs_command, s1)
      | (False, s1) \<Rightarrow>
          (case SetGhostscriptCommand_body E gs_path s1 of
             (Next (gs_command', gs_path'), s2) \<Rightarrow>
               SetGhostscriptCommand_loop E n g gs_command' gs_path' s2
           | (Return b, s2) \<Rightarrow> Some (Return b, s2)
           | (Throw e, s2) \<Rightarrow> Some (Throw e, s2)))"

definition SetGhostscriptCommand ::
  "'w Collaborators \<Rightarrow> nat \<Rightarrow> Global \<Rightarrow> string \<Rightarrow> 'w World \<Rightarrow>
     ((exn + bool) \<times> Global \<times> 'w World) option" where
  "SetGhostscriptCommand E fuel g gs_command s =
     (let gs_path = FilePath gs_command
      in case SetGhostscriptCommand_loop E fuel g gs_command gs_path s of
           None \<Rightarrow> None
         | Some (Return b, s') \<Rightarrow> Some (Inr b, g, s')
         | Some (Throw e, s') \<Rightarrow> Some (Inl e, g, s')
         | Some (Next gs_command', s') \<Rightarrow> Some (Inr True, g\<lparr>gs_command_' := gs_command'\<rparr>, s'))"

text \<open>The same for \<^verbatim>\<open>SetLatexCommand\<close> (lines 206 to 218), with the directory picker,
  which works on \<^verbatim>\<open>path\<close> itself.\<close>

definition SetLatexCommand_body ::
  "'w Collaborators \<Rightarrow> FilePath \<Rightarrow> 'w World \<Rightarrow> FilePath flow \<times> 'w World" where
  "SetLatexCommand_body E path s =
     (case OKCancelAlert E latex_form_string (host s) of
        (form_result, h2) \<Rightarrow>
          if \<not> form_result then (Return False, s\<lparr>host := h2\<rparr>)
          else
            (case GetDirectoryDialog E ''Select *.exe for the forms Application'' path h2 of
               ((err, path'), h3) \<Rightarrow>
                 if err = kCanceledErr then (Return False, s\<lparr>host := h3\<rparr>)
                 else
                   (case l2a_check_ai_error err of
                      Inl e \<Rightarrow> (Throw e, s\<lparr>host := h3\<rparr>)
                    | Inr u \<Rightarrow> (Next path', s\<lparr>host := h3\<rparr>))))"

fun SetLatexCommand_loop ::
  "'w Collaborators \<Rightarrow> nat \<Rightarrow> Global \<Rightarrow> FilePath \<Rightarrow> 'w World \<Rightarrow>
     (FilePath flow \<times> 'w World) option" where
  "SetLatexCommand_loop E 0 g path s = None"
| "SetLatexCommand_loop E (Suc n) g path s =
     (case CheckLatexCommand E g path s of
        (True, s1) \<Rightarrow> Some (Next path, s1)
      | (False, s1) \<Rightarrow>
          (case SetLatexCommand_body E path s1 of
             (Next path', s2) \<Rightarrow> SetLatexCommand_loop E n g path' s2
           | (Return b, s2) \<Rightarrow> Some (Return b, s2)
           | (Throw e, s2) \<Rightarrow> Some (Throw e, s2)))"

definition SetLatexCommand ::
  "'w Collaborators \<Rightarrow> nat \<Rightarrow> Global \<Rightarrow> FilePath \<Rightarrow> 'w World \<Rightarrow>
     ((exn + bool) \<times> Global \<times> 'w World) option" where
  "SetLatexCommand E fuel g latex_path s =
     (let path = (if WIN_ENV E then latex_path else FilePath ''/Library/TeX/texbin'')
      in case SetLatexCommand_loop E fuel g path s of
           None \<Rightarrow> None
         | Some (Return b, s') \<Rightarrow> Some (Inr b, g, s')
         | Some (Throw e, s') \<Rightarrow> Some (Inl e, g, s')
         | Some (Next path', s') \<Rightarrow> Some (Inr True, g\<lparr>latex_bin_path_' := path'\<rparr>, s'))"

subsection \<open>The constructor\<close>

text \<open>The object before the constructor body runs is a parameter: its two booleans are not
  initialised. The body seeds the object from the default parameter list, computes the two
  file names, loads the settings file (lines 78 to 100), clears the temporary directory,
  and validates the two commands (lines 106 to 124). An exception that nothing catches ends
  the construction; the bound on the loops of the setters is passed on to them.\<close>

definition settings_warning :: string where
  "settings_warning =
     ''Not all Plug-In settings of LaTeX2AI could be loaded. This can happen if a new version is used. Please check if all options are set to your preferences.''"

definition load_settings_file ::
  "'w Collaborators \<Rightarrow> Global \<Rightarrow> 'w World \<Rightarrow> (exn + unit) \<times> Global \<times> 'w World" where
  "load_settings_file E g s =
     (if IsFile E (application_data_path_' g) (host s) then
        (let xml_string = ReadFileUTF8 E (application_data_path_' g) (host s)
         in case ParameterList_of_xml E xml_string of
              Inr data_list \<Rightarrow>
                (case SetFromParameterList E data_list g of
                   (Inr set_all, g') \<Rightarrow>
                     if \<not> set_all
                     then (Inr (), g', s\<lparr>host := WarningAlert E settings_warning (host s)\<rparr>)
                     else (Inr (), g', s)
                 | (Inl (L2A_Exception m), g') \<Rightarrow>
                     (Inr (), g', s\<lparr>host := RemoveFile E (application_data_path_' g') (host s)\<rparr>)
                 | (Inl e, g') \<Rightarrow> (Inl e, g', s))
            | Inl (L2A_Exception m) \<Rightarrow>
                (Inr (), g, s\<lparr>host := RemoveFile E (application_data_path_' g) (host s)\<rparr>)
            | Inl e \<Rightarrow> (Inl e, g, s))
      else (Inr (), g, s))"

text \<open>Lines 55 to 104: everything before the validation of the two commands.\<close>

definition initialise_and_load ::
  "'w Collaborators \<Rightarrow> Global \<Rightarrow> 'w World \<Rightarrow> (exn + unit) \<times> Global \<times> 'w World" where
  "initialise_and_load E g0 s0 =
     (let g1 = g0\<lparr>is_testing_' := False\<rparr>;
          s1 = s0\<lparr>host := CheckGithubVersion E (host s0)\<rparr>;
          default_parameter_list = GetDefaultParameterList E Map.empty
      in case SetFromParameterList E default_parameter_list g1 of
           (Inl e, g2) \<Rightarrow> (Inl e, g2, s1)
         | (Inr set_all, g2) \<Rightarrow>
             (let application_data_directory = GetApplicationDataDirectory E (host s1);
                  s2 = s1\<lparr>host := CreateDirectoryL2A E application_data_directory (host s1)\<rparr>;
                  g3 = g2\<lparr>application_data_path_' :=
                            AddComponent ''LaTeX2AI_application_data.xml''
                              application_data_directory\<rparr>;
                  g4 = g3\<lparr>l2a_item_last_input_' :=
                            AddComponent ''LaTeX2AI_last_input.xml'' application_data_directory\<rparr>
              in case load_settings_file E g4 s2 of
                   (Inl e, g5, s3) \<Rightarrow> (Inl e, g5, s3)
                 | (Inr u, g5, s3) \<Rightarrow>
                     (Inr (), g5, s3\<lparr>host := ClearTemporaryDirectory E (host s3)\<rparr>)))"

text \<open>Lines 116 to 124.\<close>

definition validate_latex_command ::
  "'w Collaborators \<Rightarrow> nat \<Rightarrow> Global \<Rightarrow> 'w World \<Rightarrow>
     ((exn + unit) \<times> Global \<times> 'w World) option" where
  "validate_latex_command E fuel g s =
     (case CheckLatexCommand E g (latex_bin_path_' g) s of
        (True, s1) \<Rightarrow> Some (Inr (), g, s1)
      | (False, s1) \<Rightarrow>
          (let g1 = g\<lparr>latex_bin_path_' := FilePath ''''\<rparr>
           in case SetLatexCommand E fuel g1 (latex_bin_path_' g1) s1 of
                None \<Rightarrow> None
              | Some (Inl e, g', s') \<Rightarrow> Some (Inl e, g', s')
              | Some (Inr b, g', s') \<Rightarrow> Some (Inr (), g', s')))"

text \<open>Lines 106 to 124.\<close>

definition validate_commands ::
  "'w Collaborators \<Rightarrow> nat \<Rightarrow> Global \<Rightarrow> 'w World \<Rightarrow>
     ((exn + unit) \<times> Global \<times> 'w World) option" where
  "validate_commands E fuel g s =
     (case CheckGhostscriptCommand E g (gs_command_' g) s of
        (True, s1) \<Rightarrow> validate_latex_command E fuel g s1
      | (False, s1) \<Rightarrow>
          (let gs_command = GetGhostScriptCommand E (host s1)
           in case SetGhostscriptCommand E fuel g gs_command s1 of
                None \<Rightarrow> None
              | Some (Inl e, g', s') \<Rightarrow> Some (Inl e, g', s')
              | Some (Inr False, g', s') \<Rightarrow> Some (Inr (), g', s')
              | Some (Inr True, g', s') \<Rightarrow> validate_latex_command E fuel g' s'))"

definition Global_ctor ::
  "'w Collaborators \<Rightarrow> nat \<Rightarrow> Global \<Rightarrow> 'w World \<Rightarrow>
     ((exn + unit) \<times> Global \<times> 'w World) option" where
  "Global_ctor E fuel g0 s0 =
     (case initialise_and_load E g0 s0 of
        (Inl e, g, s) \<Rightarrow> Some (Inl e, g, s)
      | (Inr u, g, s) \<Rightarrow> validate_commands E fuel g s)"

subsection \<open>The singleton and its accessors\<close>

text \<open>The two global pointers \<^verbatim>\<open>_l2a_global\<close> and \<^verbatim>\<open>_l2a_plugin\<close>; \<open>None\<close> is
  \<^verbatim>\<open>nullptr\<close>. The plugin class is not part of this file: its objects are of any type
  \<open>'p\<close>.\<close>

record 'p Globals =
  l2a_global :: "Global option"
  l2a_plugin :: "'p option"

text \<open>Modelled from the spec: the macro \<^verbatim>\<open>l2a_error\<close> (l2a\_error) is missing; it fails
  fatally, by raising the exception of this plug-in with the message.\<close>

definition l2a_error :: "string \<Rightarrow> exn + 'a" where
  "l2a_error message = Inl (L2A_Exception message)"

definition CheckGlobal :: "'p Globals \<Rightarrow> exn + unit" where
  "CheckGlobal G =
     (if l2a_global G = None then l2a_error ''The global object is not defined!''
      else Inr ())"

definition GlobalMutable :: "'p Globals \<Rightarrow> exn + Global" where
  "GlobalMutable G =
     (case CheckGlobal G of
        Inl e \<Rightarrow> Inl e
      | Inr u \<Rightarrow> (case l2a_global G of None \<Rightarrow> Inl Null_Dereference | Some g \<Rightarrow> Inr g))"

text \<open>\<^verbatim>\<open>L2A::Global()\<close>, the read-only accessor.\<close>

definition L2A_Global :: "'p Globals \<Rightarrow> exn + Global" where
  "L2A_Global G = GlobalMutable G"

definition GlobalPluginMutable :: "'p Globals \<Rightarrow> exn + 'p" where
  "GlobalPluginMutable G =
     (case CheckGlobal G of
        Inl e \<Rightarrow> Inl e
      | Inr u \<Rightarrow> (case l2a_plugin G of None \<Rightarrow> Inl Null_Dereference | Some p \<Rightarrow> Inr p))"

text \<open>\<^verbatim>\<open>AppContext(GlobalPluginMutable().GetPluginRef())\<close>; the two SDK operations are
  composed into the parameter \<open>app_context\<close>.\<close>

definition GlobalPluginAppContext :: "('p \<Rightarrow> 'c) \<Rightarrow> 'p Globals \<Rightarrow> exn + 'c" where
  "GlobalPluginAppContext app_context G =
     (case GlobalPluginMutable G of Inl e \<Rightarrow> Inl e | Inr p \<Rightarrow> Inr (app_context p))"

subsection \<open>What the specification names\<close>

text \<open>The six keys of the settings document.\<close>

definition recognized_keys :: "string list" where
  "recognized_keys =
     [''latex_bin_path'', ''latex_engine'', ''latex_command_options'', ''gs_command'',
      ''warning_boundary_boxes'', ''warning_ai_not_saved'']"

text \<open>The overlay of a parameter list onto an object, in the words of the specification: a
  key that is present overwrites its field, a field whose key is absent keeps its value.\<close>

definition overlay_spec :: "'w Collaborators \<Rightarrow> ParameterList \<Rightarrow> Global \<Rightarrow> Global" where
  "overlay_spec E pl g =
     g\<lparr>latex_bin_path_' :=
          (case pl ''latex_bin_path'' of None \<Rightarrow> latex_bin_path_' g | Some v \<Rightarrow> FilePath v),
       latex_engine_' :=
          (case pl ''latex_engine'' of None \<Rightarrow> latex_engine_' g | Some v \<Rightarrow> v),
       latex_command_options_' :=
          (case pl ''latex_command_options'' of
             None \<Rightarrow> latex_command_options_' g | Some v \<Rightarrow> v),
       gs_command_' :=
          (case pl ''gs_command'' of None \<Rightarrow> gs_command_' g | Some v \<Rightarrow> v),
       warning_boundary_boxes_' :=
          (case pl ''warning_boundary_boxes'' of
             None \<Rightarrow> warning_boundary_boxes_' g
           | Some v \<Rightarrow> bool_of_int (StringToInteger E v)),
       warning_ai_not_saved_' :=
          (case pl ''warning_ai_not_saved'' of
             None \<Rightarrow> warning_ai_not_saved_' g
           | Some v \<Rightarrow> bool_of_int (StringToInteger E v))\<rparr>"

text \<open>The field a key stands for, and the value a stored string gives that field.\<close>

datatype field_value = Path_value FilePath | String_value string | Bool_value bool

definition field_of :: "string \<Rightarrow> Global \<Rightarrow> field_value option" where
  "field_of key g =
     (if key = ''latex_bin_path'' then Some (Path_value (latex_bin_path_' g))
      else if key = ''latex_engine'' then Some (String_value (latex_engine_' g))
      else if key = ''latex_command_options'' then Some (String_value (latex_command_options_' g))
      else if key = ''gs_command'' then Some (String_value (gs_command_' g))
      else if key = ''warning_boundary_boxes'' then Some (Bool_value (warning_boundary_boxes_' g))
      else if key = ''warning_ai_not_saved'' then Some (Bool_value (warning_ai_not_saved_' g))
      else None)"

definition decoded_value :: "'w Collaborators \<Rightarrow> string \<Rightarrow> string \<Rightarrow> field_value option" where
  "decoded_value E key v =
     (if key = ''latex_bin_path'' then Some (Path_value (FilePath v))
      else if key = ''latex_engine'' \<or> key = ''latex_command_options'' \<or> key = ''gs_command''
        then Some (String_value v)
      else if key = ''warning_boundary_boxes'' \<or> key = ''warning_ai_not_saved''
        then Some (Bool_value (bool_of_int (StringToInteger E v)))
      else None)"

text \<open>The hardcoded defaults, with the two file names under the application data directory.
  The two booleans are what the integer conversions make of \<^verbatim>\<open>true\<close>.\<close>

definition default_config :: "'w Collaborators \<Rightarrow> FilePath \<Rightarrow> Global" where
  "default_config E application_data_directory =
     \<lparr>is_testing_' = False,
      application_data_path_' =
        AddComponent ''LaTeX2AI_application_data.xml'' application_data_directory,
      l2a_item_last_input_' =
        AddComponent ''LaTeX2AI_last_input.xml'' application_data_directory,
      latex_bin_path_' = FilePath '''',
      latex_engine_' = ''pdflatex'',
      latex_command_options_' = ''-interaction nonstopmode -halt-on-error -file-line-error'',
      gs_command_' = '''',
      warning_boundary_boxes_' =
        bool_of_int (StringToInteger E (IntegerToString E (int_of_bool True))),
      warning_ai_not_saved_' =
        bool_of_int (StringToInteger E (IntegerToString E (int_of_bool True)))\<rparr>"

text \<open>The variables of the loop of a setter after \<open>k\<close> rounds, in each of which the candidate
  failed the check and the user confirmed and picked another one; \<open>None\<close> if the loop was
  left before.\<close>

fun gs_rounds ::
  "'w Collaborators \<Rightarrow> Global \<Rightarrow> nat \<Rightarrow> string \<times> FilePath \<times> 'w World \<Rightarrow>
     (string \<times> FilePath \<times> 'w World) option" where
  "gs_rounds E g 0 X = Some X"
| "gs_rounds E g (Suc k) (gs_command, gs_path, s) =
     (case CheckGhostscriptCommand E g gs_command s of
        (True, s1) \<Rightarrow> None
      | (False, s1) \<Rightarrow>
          (case SetGhostscriptCommand_body E gs_path s1 of
             (Next (gs_command', gs_path'), s2) \<Rightarrow> gs_rounds E g k (gs_command', gs_path', s2)
           | (Return b, s2) \<Rightarrow> None
           | (Throw e, s2) \<Rightarrow> None))"

fun latex_rounds ::
  "'w Collaborators \<Rightarrow> Global \<Rightarrow> nat \<Rightarrow> FilePath \<times> 'w World \<Rightarrow> (FilePath \<times> 'w World) option" where
  "latex_rounds E g 0 X = Some X"
| "latex_rounds E g (Suc k) (path, s) =
     (case CheckLatexCommand E g path s of
        (True, s1) \<Rightarrow> None
      | (False, s1) \<Rightarrow>
          (case SetLatexCommand_body E path s1 of
             (Next path', s2) \<Rightarrow> latex_rounds E g k (path', s2)
           | (Return b, s2) \<Rightarrow> None
           | (Throw e, s2) \<Rightarrow> None))"

subsection \<open>A scripted host for the examples\<close>

text \<open>A host whose user answers from two lists, whose file system is a map from file names
  to contents and a list of directories, and on which exactly four command lines run with
  success. Its document codec knows the empty document only. \<open>desk\<close> is a state of it
  with no settings file.\<close>

record Desk =
  ok_answers :: "bool list"
  picked :: "(AIErr \<times> FilePath) list"
  files :: "string \<rightharpoonup> string"
  directories :: "string list"

definition desk_host :: "Desk Collaborators" where
  "desk_host =
     \<lparr>ExecuteCommandLine = (\<lambda>command w.
          (if command = dquote @ ''/usr/bin/gs'' @ dquote @ '' -v''
           then Inr ''GPL Ghostscript 9.50 (2019-10-15)''
           else if command = dquote @ ''/usr/bin/true'' @ dquote @ '' -v''
           then Inr ''''
           else if command = ''pdflatex -version''
           then Inr ''pdfTeX 3.14159265-2.6-1.40.21''
           else if command = dquote @ ''/Library/TeX/texbin/pdflatex'' @ dquote @ '' -version''
           then Inr ''pdfTeX 3.14159265-2.6-1.40.21''
           else Inl (Foreign_Exception ''command failed''), w)),
      OKCancelAlert = (\<lambda>message w.
          case ok_answers w of [] \<Rightarrow> (False, w) | a # as \<Rightarrow> (a, w\<lparr>ok_answers := as\<rparr>)),
      GetFileDialog = (\<lambda>title p w.
          case picked w of [] \<Rightarrow> ((kCanceledErr, p), w) | x # xs \<Rightarrow> (x, w\<lparr>picked := xs\<rparr>)),
      GetDirectoryDialog = (\<lambda>title p w.
          case picked w of [] \<Rightarrow> ((kCanceledErr, p), w) | x # xs \<Rightarrow> (x, w\<lparr>picked := xs\<rparr>)),
      WarningAlert = (\<lambda>message w. w),
      IsDirectory = (\<lambda>p w. GetFullPath p \<in> set (directories w)),
      IsFile = (\<lambda>p w. files w (GetFullPath p) \<noteq> None),
      ReadFileUTF8 = (\<lambda>p w. case files w (GetFullPath p) of None \<Rightarrow> [] | Some c \<Rightarrow> c),
      RemoveFile = (\<lambda>p w. w\<lparr>files := (files w)(GetFullPath p := None)\<rparr>),
      CreateDirectoryL2A = (\<lambda>p w. w),
      ClearTemporaryDirectory = (\<lambda>w. w),
      CheckGithubVersion = (\<lambda>w. w),
      GetApplicationDataDirectory = (\<lambda>w. FilePath ''/appdata''),
      GetGhostScriptCommand = (\<lambda>w. ''gs''),
      ParameterList_of_xml = (\<lambda>xml.
          if xml = ''<LaTeX2AI_options/>'' then Inr Map.empty
          else Inl (L2A_Exception ''malformed document'')),
      ToXMLString = (\<lambda>pl root. ''<'' @ root @ ''/>''),
      IntegerToString = (\<lambda>i. if i = 0 then ''0'' else if i = 1 then ''1'' else ''2''),
      StringToInteger = (\<lambda>v. if v = ''0'' then 0 else if v = ''1'' then 1 else 2),
      WIN_ENV = False\<rparr>"

text \<open>The same host with no typesetting engine installed.\<close>

definition desk_host_without_tex :: "Desk Collaborators" where
  "desk_host_without_tex =
     desk_host\<lparr>ExecuteCommandLine := (\<lambda>command w.
       (if command = dquote @ ''/usr/bin/gs'' @ dquote @ '' -v''
        then Inr ''GPL Ghostscript 9.50 (2019-10-15)''
        else Inl (Foreign_Exception ''command failed''), w))\<rparr>"

definition desk :: "string list \<Rightarrow> bool list \<Rightarrow> (AIErr \<times> FilePath) list \<Rightarrow> Desk World" where
  "desk calls answers picks =
     \<lparr>exec_calls = calls,
      host = \<lparr>ok_answers = answers, picked = picks, files = Map.empty,
              directories = [''/appdata'', ''/Library/TeX/texbin'']\<rparr>\<rparr>"

text \<open>The same with a settings file that is cut off in the middle.\<close>

definition desk_corrupt ::
  "string list \<Rightarrow> bool list \<Rightarrow> (AIErr \<times> FilePath) list \<Rightarrow> Desk World" where
  "desk_corrupt calls answers picks =
     \<lparr>exec_calls = calls,
      host = \<lparr>ok_answers = answers, picked = picks,
              files = [''/appdata/LaTeX2AI_application_data.xml'' \<mapsto> ''<LaTeX2AI_opt''],
              directories = [''/appdata'', ''/Library/TeX/texbin'']\<rparr>\<rparr>"

definition example_Global :: Global where
  "example_Global =
     \<lparr>is_testing_' = False,
      application_data_path_' = FilePath ''/appdata/LaTeX2AI_application_data.xml'',
      l2a_item_last_input_' = FilePath ''/appdata/LaTeX2AI_last_input.xml'',
      latex_bin_path_' = FilePath '''',
      latex_engine_' = ''pdflatex'',
      latex_command_options_' = ''-interaction nonstopmode -halt-on-error -file-line-error'',
      gs_command_' = '''',
      warning_boundary_boxes_' = True,
      warning_ai_not_saved_' = True\<rparr>"

section \<open>Properties\<close>

subsection \<open>Decoding is the overlay\<close>

lemma read_string_option_Inr:
  "read_string_option key pl assign (Inr b, g) =
     (case pl key of None \<Rightarrow> (Inr False, g) | Some v \<Rightarrow> (Inr b, assign v g))"
  by (simp add: read_string_option_def OptionExists_def GetStringOption_def split: option.splits)

lemma read_int_option_Inr:
  "read_int_option E key pl assign (Inr b, g) =
     (case pl key of None \<Rightarrow> (Inr False, g)
      | Some v \<Rightarrow> (Inr b, assign (StringToInteger E v) g))"
  by (simp add: read_int_option_def OptionExists_def GetIntOption_def GetStringOption_def
      split: option.splits)

text \<open>\<^verbatim>\<open>SetFromParameterList\<close> raises nothing, computes the overlay, and returns whether
  all six keys were there.\<close>

lemma SetFromParameterList_overlay:
  "SetFromParameterList E pl g =
     (Inr (\<forall>k \<in> set recognized_keys. pl k \<noteq> None), overlay_spec E pl g)"
  unfolding SetFromParameterList_def overlay_spec_def recognized_keys_def
  by (simp add: read_string_option_Inr read_int_option_Inr split: option.splits)

lemma FilePath_GetFullPath: "FilePath (GetFullPath p) = p"
  by (cases p) simp

lemma ToParameterList_lookup:
  "ToParameterList E g pl ''latex_bin_path'' = Some (GetFullPath (latex_bin_path_' g))"
  "ToParameterList E g pl ''latex_engine'' = Some (latex_engine_' g)"
  "ToParameterList E g pl ''latex_command_options'' = Some (latex_command_options_' g)"
  "ToParameterList E g pl ''gs_command'' = Some (gs_command_' g)"
  "ToParameterList E g pl ''warning_boundary_boxes'' =
     Some (IntegerToString E (int_of_bool (warning_boundary_boxes_' g)))"
  "ToParameterList E g pl ''warning_ai_not_saved'' =
     Some (IntegerToString E (int_of_bool (warning_ai_not_saved_' g)))"
  by (simp_all add: ToParameterList_def SetOption_def SetOption_int_def SetOption_FilePath_def)

lemma dom_ToParameterList:
  "dom (ToParameterList E g pl) = set recognized_keys \<union> dom pl"
  by (auto simp: ToParameterList_def SetOption_def SetOption_int_def SetOption_FilePath_def
      recognized_keys_def)

lemma dom_GetDefaultParameterList:
  "dom (GetDefaultParameterList E pl) = set recognized_keys \<union> dom pl"
  by (auto simp: GetDefaultParameterList_def SetOption_def SetOption_int_def recognized_keys_def)

lemma recognized_keys_cases:
  assumes "k \<in> set recognized_keys"
  obtains "k = ''latex_bin_path''" | "k = ''latex_engine''" | "k = ''latex_command_options''"
    | "k = ''gs_command''" | "k = ''warning_boundary_boxes''" | "k = ''warning_ai_not_saved''"
proof -
  from assms have "k = ''latex_bin_path'' \<or> k = ''latex_engine'' \<or> k = ''latex_command_options''
    \<or> k = ''gs_command'' \<or> k = ''warning_boundary_boxes'' \<or> k = ''warning_ai_not_saved''"
    by (simp add: recognized_keys_def)
  then show thesis
    by (elim disjE) (rule that, assumption)+
qed

lemma field_of_overlay_absent:
  assumes "pl k = None"
  shows "field_of k (overlay_spec E pl g) = field_of k g"
proof (cases "k \<in> set recognized_keys")
  case True
  then show ?thesis
    by (cases rule: recognized_keys_cases)
      (use assms in \<open>simp_all add: field_of_def overlay_spec_def\<close>)
next
  case False
  then show ?thesis
    by (simp add: field_of_def recognized_keys_def)
qed

lemma field_of_overlay_present:
  assumes "k \<in> set recognized_keys" and "pl k = Some v"
  shows "field_of k (overlay_spec E pl g) = decoded_value E k v"
  using assms(1)
  by (cases rule: recognized_keys_cases)
    (use assms(2) in \<open>simp_all add: field_of_def overlay_spec_def decoded_value_def\<close>)

subsection \<open>Running a command and searching its output\<close>

lemma starts_with_iff: "starts_with marker ys \<longleftrightarrow> (\<exists>ss. ys = marker @ ss)"
  by (induction marker ys rule: starts_with.induct) auto

lemma find_not_npos_iff:
  "find_not_npos marker out \<longleftrightarrow> (\<exists>ps ss. out = ps @ marker @ ss)"
proof (induction out)
  case Nil
  then show ?case by auto
next
  case (Cons c cs)
  show ?case
  proof
    assume "find_not_npos marker (c # cs)"
    then consider "starts_with marker (c # cs)" | "find_not_npos marker cs"
      by auto
    then show "\<exists>ps ss. c # cs = ps @ marker @ ss"
    proof cases
      case 1
      then obtain ss where "c # cs = marker @ ss"
        by (auto simp: starts_with_iff)
      then have "c # cs = [] @ marker @ ss" by simp
      then show ?thesis by blast
    next
      case 2
      then obtain ps ss where "cs = ps @ marker @ ss"
        using Cons.IH by blast
      then have "c # cs = (c # ps) @ marker @ ss" by simp
      then show ?thesis by blast
    qed
  next
    assume "\<exists>ps ss. c # cs = ps @ marker @ ss"
    then obtain ps ss where eq: "c # cs = ps @ marker @ ss" by blast
    show "find_not_npos marker (c # cs)"
    proof (cases ps)
      case Nil
      then have "starts_with marker (c # cs)"
        using eq by (auto simp: starts_with_iff)
      then show ?thesis by simp
    next
      case (Cons p ps')
      then have "cs = ps' @ marker @ ss" using eq by simp
      then have "find_not_npos marker cs" using Cons.IH by blast
      then show ?thesis by simp
    qed
  qed
qed

lemma probe_command_eq:
  "probe_command E command marker s =
     ((case fst (ExecuteCommandLine E command (host s)) of
         Inl e \<Rightarrow> False | Inr out \<Rightarrow> find_not_npos marker out),
      \<lparr>exec_calls = exec_calls s @ [command],
       host = snd (ExecuteCommandLine E command (host s))\<rparr>)"
  by (simp add: probe_command_def run_command_def split: prod.splits sum.splits)

lemma AddComponent_GetFullPath:
  "GetFullPath (AddComponent c p) = GetFullPath p @ ''/'' @ c"
  by (cases p) simp

lemma probe_command_marker:
  "probe_command E command marker s =
     ((\<exists>ps ss. fst (ExecuteCommandLine E command (host s)) = Inr (ps @ marker @ ss)),
      \<lparr>exec_calls = exec_calls s @ [command],
       host = snd (ExecuteCommandLine E command (host s))\<rparr>)"
  by (auto simp: probe_command_eq find_not_npos_iff split: sum.splits)

subsection \<open>The loops of the repair setters\<close>

lemma SetGhostscriptCommand_body_Return:
  "SetGhostscriptCommand_body E gs_path s = (Return b, s') \<Longrightarrow> b = False"
  by (auto simp: SetGhostscriptCommand_body_def split: prod.splits if_splits sum.splits)

lemma SetLatexCommand_body_Return:
  "SetLatexCommand_body E path s = (Return b, s') \<Longrightarrow> b = False"
  by (auto simp: SetLatexCommand_body_def split: prod.splits if_splits sum.splits)

text \<open>When the loop is left through its condition, the last thing that happened is a check
  that the final candidate passed; a \<^verbatim>\<open>return\<close> from inside the loop returns
  \<^verbatim>\<open>false\<close>.\<close>

lemma SetGhostscriptCommand_loop_exit:
  "SetGhostscriptCommand_loop E n g gs_command gs_path s = Some (r, s') \<Longrightarrow>
     (case r of
        Next c \<Rightarrow> \<exists>s1. CheckGhostscriptCommand E g c s1 = (True, s')
      | Return b \<Rightarrow> b = False
      | Throw e \<Rightarrow> True)"
proof (induction n arbitrary: gs_command gs_path s)
  case 0
  then show ?case by simp
next
  case (Suc n)
  obtain ok s1 where check: "CheckGhostscriptCommand E g gs_command s = (ok, s1)"
    by (cases "CheckGhostscriptCommand E g gs_command s")
  show ?case
  proof (cases ok)
    case True
    with Suc.prems check have "r = Next gs_command" "s' = s1" by simp_all
    with True check show ?thesis by auto
  next
    case False
    obtain f s2 where body: "SetGhostscriptCommand_body E gs_path s1 = (f, s2)"
      by (cases "SetGhostscriptCommand_body E gs_path s1")
    show ?thesis
    proof (cases f)
      case (Next cp)
      obtain c' p' where "cp = (c', p')" by (cases cp)
      with Suc.prems check False body Next
      have "SetGhostscriptCommand_loop E n g c' p' s2 = Some (r, s')" by simp
      then show ?thesis by (rule Suc.IH)
    next
      case (Return b)
      with body have "b = False" by (auto dest: SetGhostscriptCommand_body_Return)
      with Suc.prems check False body Return show ?thesis by auto
    next
      case (Throw e)
      with Suc.prems check False body show ?thesis by auto
    qed
  qed
qed

lemma SetLatexCommand_loop_exit:
  "SetLatexCommand_loop E n g path s = Some (r, s') \<Longrightarrow>
     (case r of
        Next p \<Rightarrow> \<exists>s1. CheckLatexCommand E g p s1 = (True, s')
      | Return b \<Rightarrow> b = False
      | Throw e \<Rightarrow> True)"
proof (induction n arbitrary: path s)
  case 0
  then show ?case by simp
next
  case (Suc n)
  obtain ok s1 where check: "CheckLatexCommand E g path s = (ok, s1)"
    by (cases "CheckLatexCommand E g path s")
  show ?case
  proof (cases ok)
    case True
    with Suc.prems check have "r = Next path" "s' = s1" by simp_all
    with True check show ?thesis by auto
  next
    case False
    obtain f s2 where body: "SetLatexCommand_body E path s1 = (f, s2)"
      by (cases "SetLatexCommand_body E path s1")
    show ?thesis
    proof (cases f)
      case (Next p')
      with Suc.prems check False body
      have "SetLatexCommand_loop E n g p' s2 = Some (r, s')" by simp
      then show ?thesis by (rule Suc.IH)
    next
      case (Return b)
      with body have "b = False" by (auto dest: SetLatexCommand_body_Return)
      with Suc.prems check False body Return show ?thesis by auto
    next
      case (Throw e)
      with Suc.prems check False body show ?thesis by auto
    qed
  qed
qed

text \<open>Rounds in which a candidate is rejected and replaced use up one unit of the bound each
  and leave the loop where it would have started with the last pick.\<close>

lemma SetGhostscriptCommand_loop_rounds:
  "gs_rounds E g k (gs_command, gs_path, s) = Some (c', p', s') \<Longrightarrow>
     SetGhostscriptCommand_loop E (k + n) g gs_command gs_path s
       = SetGhostscriptCommand_loop E n g c' p' s'"
proof (induction k arbitrary: gs_command gs_path s)
  case 0
  then show ?case by simp
next
  case (Suc k)
  then show ?case
    by (auto split: prod.splits bool.splits flow.splits)
qed

lemma SetLatexCommand_loop_rounds:
  "latex_rounds E g k (path, s) = Some (p', s') \<Longrightarrow>
     SetLatexCommand_loop E (k + n) g path s = SetLatexCommand_loop E n g p' s'"
proof (induction k arbitrary: path s)
  case 0
  then show ?case by simp
next
  case (Suc k)
  then show ?case
    by (auto split: prod.splits bool.splits flow.splits)
qed

lemma SetGhostscriptCommand_post:
  assumes "SetGhostscriptCommand E fuel g gs_command s = Some (r, g', s')"
  shows "(r = Inr True \<and>
            (\<exists>c s1. g' = g\<lparr>gs_command_' := c\<rparr> \<and> CheckGhostscriptCommand E g c s1 = (True, s')))
         \<or> (r \<noteq> Inr True \<and> g' = g)"
proof -
  obtain f where loop: "SetGhostscriptCommand_loop E fuel g gs_command (FilePath gs_command) s
      = Some (f, s')"
    using assms
    by (auto simp: SetGhostscriptCommand_def split: option.splits prod.splits flow.splits)
  show ?thesis
  proof (cases f)
    case (Next c)
    with SetGhostscriptCommand_loop_exit [OF loop]
    obtain s1 where "CheckGhostscriptCommand E g c s1 = (True, s')" by auto
    moreover from assms loop Next have "r = Inr True" "g' = g\<lparr>gs_command_' := c\<rparr>"
      by (simp_all add: SetGhostscriptCommand_def)
    ultimately show ?thesis by blast
  next
    case (Return b)
    with SetGhostscriptCommand_loop_exit [OF loop] have "b = False" by simp
    with assms loop Return show ?thesis
      by (auto simp: SetGhostscriptCommand_def)
  next
    case (Throw e)
    with assms loop show ?thesis
      by (auto simp: SetGhostscriptCommand_def)
  qed
qed

lemma SetLatexCommand_post:
  assumes "SetLatexCommand E fuel g latex_path s = Some (r, g', s')"
  shows "(r = Inr True \<and>
            (\<exists>p s1. g' = g\<lparr>latex_bin_path_' := p\<rparr> \<and> CheckLatexCommand E g p s1 = (True, s')))
         \<or> (r \<noteq> Inr True \<and> g' = g)"
proof -
  obtain f where loop: "SetLatexCommand_loop E fuel g
      (if WIN_ENV E then latex_path else FilePath ''/Library/TeX/texbin'') s = Some (f, s')"
    using assms
    by (auto simp: SetLatexCommand_def Let_def split: option.splits prod.splits flow.splits)
  show ?thesis
  proof (cases f)
    case (Next p)
    with SetLatexCommand_loop_exit [OF loop]
    obtain s1 where "CheckLatexCommand E g p s1 = (True, s')" by auto
    moreover from assms loop Next have "r = Inr True" "g' = g\<lparr>latex_bin_path_' := p\<rparr>"
      by (simp_all add: SetLatexCommand_def Let_def)
    ultimately show ?thesis by blast
  next
    case (Return b)
    with SetLatexCommand_loop_exit [OF loop] have "b = False" by simp
    with assms loop Return show ?thesis
      by (auto simp: SetLatexCommand_def Let_def)
  next
    case (Throw e)
    with assms loop show ?thesis
      by (auto simp: SetLatexCommand_def Let_def)
  qed
qed

lemma SetGhostscriptCommand_valid_after_rounds:
  assumes "gs_rounds E g k (gs_command, FilePath gs_command, s) = Some (c, p, s1)"
    and "CheckGhostscriptCommand E g c s1 = (True, s2)"
  shows "SetGhostscriptCommand E (k + Suc n) g gs_command s
           = Some (Inr True, g\<lparr>gs_command_' := c\<rparr>, s2)"
proof -
  have "SetGhostscriptCommand_loop E (k + Suc n) g gs_command (FilePath gs_command) s
      = SetGhostscriptCommand_loop E (Suc n) g c p s1"
    using assms(1) by (rule SetGhostscriptCommand_loop_rounds)
  also have "\<dots> = Some (Next c, s2)"
    using assms(2) by simp
  finally show ?thesis
    by (simp add: SetGhostscriptCommand_def)
qed

lemma SetGhostscriptCommand_cancel_after_rounds:
  assumes "gs_rounds E g k (gs_command, FilePath gs_command, s) = Some (c, p, s1)"
    and "CheckGhostscriptCommand E g c s1 = (False, s2)"
    and "SetGhostscriptCommand_body E p s2 = (Return False, s3)"
  shows "SetGhostscriptCommand E (k + Suc n) g gs_command s = Some (Inr False, g, s3)"
proof -
  have "SetGhostscriptCommand_loop E (k + Suc n) g gs_command (FilePath gs_command) s
      = SetGhostscriptCommand_loop E (Suc n) g c p s1"
    using assms(1) by (rule SetGhostscriptCommand_loop_rounds)
  also have "\<dots> = Some (Return False, s3)"
    using assms(2,3) by simp
  finally show ?thesis
    by (simp add: SetGhostscriptCommand_def)
qed

lemma SetLatexCommand_valid_after_rounds:
  assumes "latex_rounds E g k
             (if WIN_ENV E then latex_path else FilePath ''/Library/TeX/texbin'', s)
           = Some (p, s1)"
    and "CheckLatexCommand E g p s1 = (True, s2)"
  shows "SetLatexCommand E (k + Suc n) g latex_path s
           = Some (Inr True, g\<lparr>latex_bin_path_' := p\<rparr>, s2)"
proof -
  have "SetLatexCommand_loop E (k + Suc n) g
          (if WIN_ENV E then latex_path else FilePath ''/Library/TeX/texbin'') s
      = SetLatexCommand_loop E (Suc n) g p s1"
    using assms(1) by (rule SetLatexCommand_loop_rounds)
  also have "\<dots> = Some (Next p, s2)"
    using assms(2) by simp
  finally show ?thesis
    by (simp add: SetLatexCommand_def Let_def)
qed

lemma SetLatexCommand_cancel_after_rounds:
  assumes "latex_rounds E g k
             (if WIN_ENV E then latex_path else FilePath ''/Library/TeX/texbin'', s)
           = Some (p, s1)"
    and "CheckLatexCommand E g p s1 = (False, s2)"
    and "SetLatexCommand_body E p s2 = (Return False, s3)"
  shows "SetLatexCommand E (k + Suc n) g latex_path s = Some (Inr False, g, s3)"
proof -
  have "SetLatexCommand_loop E (k + Suc n) g
          (if WIN_ENV E then latex_path else FilePath ''/Library/TeX/texbin'') s
      = SetLatexCommand_loop E (Suc n) g p s1"
    using assms(1) by (rule SetLatexCommand_loop_rounds)
  also have "\<dots> = Some (Return False, s3)"
    using assms(2,3) by simp
  finally show ?thesis
    by (simp add: SetLatexCommand_def Let_def)
qed

lemma SetGhostscriptCommand_body_cancel:
  "OKCancelAlert E gs_form_string (host s) = (False, h) \<Longrightarrow>
     SetGhostscriptCommand_body E p s = (Return False, s\<lparr>host := h\<rparr>)"
  "OKCancelAlert E gs_form_string (host s) = (True, h) \<Longrightarrow>
   GetFileDialog E ''Select *.exe for the forms Application'' p h = ((kCanceledErr, p'), h') \<Longrightarrow>
     SetGhostscriptCommand_body E p s = (Return False, s\<lparr>host := h'\<rparr>)"
  by (simp_all add: SetGhostscriptCommand_body_def)

lemma SetLatexCommand_body_cancel:
  "OKCancelAlert E latex_form_string (host s) = (False, h) \<Longrightarrow>
     SetLatexCommand_body E p s = (Return False, s\<lparr>host := h\<rparr>)"
  "OKCancelAlert E latex_form_string (host s) = (True, h) \<Longrightarrow>
   GetDirectoryDialog E ''Select *.exe for the forms Application'' p h
     = ((kCanceledErr, p'), h') \<Longrightarrow>
     SetLatexCommand_body E p s = (Return False, s\<lparr>host := h'\<rparr>)"
  by (simp_all add: SetLatexCommand_body_def)

subsection \<open>The start of the constructor\<close>

lemma GetDefaultParameterList_lookup:
  "GetDefaultParameterList E pl ''latex_bin_path'' = Some ''''"
  "GetDefaultParameterList E pl ''latex_engine'' = Some ''pdflatex''"
  "GetDefaultParameterList E pl ''latex_command_options''
     = Some ''-interaction nonstopmode -halt-on-error -file-line-error''"
  "GetDefaultParameterList E pl ''gs_command'' = Some ''''"
  "GetDefaultParameterList E pl ''warning_boundary_boxes''
     = Some (IntegerToString E (int_of_bool True))"
  "GetDefaultParameterList E pl ''warning_ai_not_saved''
     = Some (IntegerToString E (int_of_bool True))"
  by (simp_all add: GetDefaultParameterList_def SetOption_def SetOption_int_def)

lemma seed_defaults:
  "SetFromParameterList E (GetDefaultParameterList E Map.empty) g =
     (Inr True,
      g\<lparr>latex_bin_path_' := FilePath '''',
        latex_engine_' := ''pdflatex'',
        latex_command_options_' := ''-interaction nonstopmode -halt-on-error -file-line-error'',
        gs_command_' := '''',
        warning_boundary_boxes_' :=
          bool_of_int (StringToInteger E (IntegerToString E (int_of_bool True))),
        warning_ai_not_saved_' :=
          bool_of_int (StringToInteger E (IntegerToString E (int_of_bool True)))\<rparr>)"
proof -
  have "\<forall>k \<in> set recognized_keys. GetDefaultParameterList E Map.empty k \<noteq> None"
    using dom_GetDefaultParameterList [of E Map.empty] by blast
  then show ?thesis
    by (simp add: SetFromParameterList_overlay overlay_spec_def GetDefaultParameterList_lookup)
qed

text \<open>Lines 55 to 76: the object when the settings file is looked for.\<close>

lemma initialise_and_load_eq:
  "initialise_and_load E g0 s0 =
     (let h1 = CheckGithubVersion E (host s0);
          dir = GetApplicationDataDirectory E h1
      in case load_settings_file E (default_config E dir)
                (s0\<lparr>host := CreateDirectoryL2A E dir h1\<rparr>) of
           (Inl e, g5, s3) \<Rightarrow> (Inl e, g5, s3)
         | (Inr u, g5, s3) \<Rightarrow> (Inr (), g5, s3\<lparr>host := ClearTemporaryDirectory E (host s3)\<rparr>))"
proof -
  have "(g0\<lparr>is_testing_' := False,
        latex_bin_path_' := FilePath '''',
        latex_engine_' := ''pdflatex'',
        latex_command_options_' := ''-interaction nonstopmode -halt-on-error -file-line-error'',
        gs_command_' := '''',
        warning_boundary_boxes_' :=
          bool_of_int (StringToInteger E (IntegerToString E (int_of_bool True))),
        warning_ai_not_saved_' :=
          bool_of_int (StringToInteger E (IntegerToString E (int_of_bool True))),
        application_data_path_' := AddComponent ''LaTeX2AI_application_data.xml'' dir,
        l2a_item_last_input_' := AddComponent ''LaTeX2AI_last_input.xml'' dir\<rparr>)
      = default_config E dir" for dir
    by (simp add: default_config_def)
  then show ?thesis
    by (simp add: initialise_and_load_def seed_defaults Let_def)
qed

lemma load_settings_file_corrupt:
  assumes "IsFile E (application_data_path_' g) (host s)"
    and "ParameterList_of_xml E (ReadFileUTF8 E (application_data_path_' g) (host s))
           = Inl (L2A_Exception m)"
  shows "load_settings_file E g s
           = (Inr (), g, s\<lparr>host := RemoveFile E (application_data_path_' g) (host s)\<rparr>)"
  using assms by (simp add: load_settings_file_def)

lemma default_config_path:
  "application_data_path_' (default_config E dir)
     = AddComponent ''LaTeX2AI_application_data.xml'' dir"
  by (simp add: default_config_def)

text \<open>The command lines a setter of the renderer runs are renderer probes.\<close>

lemma CheckGhostscriptCommand_calls:
  "CheckGhostscriptCommand E g c s = (b, s1) \<Longrightarrow>
     exec_calls s1 = exec_calls s @ [dquote @ c @ dquote @ '' -v'']"
  by (auto simp: CheckGhostscriptCommand_def probe_command_eq Let_def)

lemma SetGhostscriptCommand_body_calls:
  "SetGhostscriptCommand_body E p s = (f, s') \<Longrightarrow> exec_calls s' = exec_calls s"
  by (auto simp: SetGhostscriptCommand_body_def split: prod.splits if_splits sum.splits)

lemma SetGhostscriptCommand_loop_calls:
  "SetGhostscriptCommand_loop E n g gs_command gs_path s = Some (r, s') \<Longrightarrow>
     \<exists>cs. exec_calls s' = exec_calls s @ map (\<lambda>c. dquote @ c @ dquote @ '' -v'') cs"
proof (induction n arbitrary: gs_command gs_path s)
  case 0
  then show ?case by simp
next
  case (Suc n)
  obtain ok s1 where check: "CheckGhostscriptCommand E g gs_command s = (ok, s1)"
    by (cases "CheckGhostscriptCommand E g gs_command s")
  then have calls1:
    "exec_calls s1 = exec_calls s @ map (\<lambda>c. dquote @ c @ dquote @ '' -v'') [gs_command]"
    by (simp add: CheckGhostscriptCommand_calls)
  show ?case
  proof (cases ok)
    case True
    with Suc.prems check have "s' = s1" by simp
    with calls1 show ?thesis by blast
  next
    case False
    obtain f s2 where body: "SetGhostscriptCommand_body E gs_path s1 = (f, s2)"
      by (cases "SetGhostscriptCommand_body E gs_path s1")
    then have calls2: "exec_calls s2 = exec_calls s1"
      by (rule SetGhostscriptCommand_body_calls)
    show ?thesis
    proof (cases f)
      case (Next cp)
      obtain c' p' where "cp = (c', p')" by (cases cp)
      with Suc.prems check False body Next
      have "SetGhostscriptCommand_loop E n g c' p' s2 = Some (r, s')" by simp
      then obtain cs where
        "exec_calls s' = exec_calls s2 @ map (\<lambda>c. dquote @ c @ dquote @ '' -v'') cs"
        using Suc.IH by blast
      then have "exec_calls s'
          = exec_calls s @ map (\<lambda>c. dquote @ c @ dquote @ '' -v'') (gs_command # cs)"
        using calls1 calls2 by simp
      then show ?thesis by blast
    next
      case (Return b)
      with Suc.prems check False body have "s' = s2" by auto
      with calls1 calls2 show ?thesis by metis
    next
      case (Throw e)
      with Suc.prems check False body have "s' = s2" by auto
      with calls1 calls2 show ?thesis by metis
    qed
  qed
qed

lemma SetGhostscriptCommand_calls:
  assumes "SetGhostscriptCommand E fuel g gs_command s = Some (r, g', s')"
  shows "\<exists>cs. exec_calls s' = exec_calls s @ map (\<lambda>c. dquote @ c @ dquote @ '' -v'') cs"
proof -
  obtain f where "SetGhostscriptCommand_loop E fuel g gs_command (FilePath gs_command) s
      = Some (f, s')"
    using assms
    by (auto simp: SetGhostscriptCommand_def split: option.splits prod.splits flow.splits)
  then show ?thesis by (rule SetGhostscriptCommand_loop_calls)
qed

lemma SetGhostscriptCommand_False_unchanged:
  assumes "SetGhostscriptCommand E fuel g gs_command s = Some (Inr False, g', s')"
  shows "g' = g"
  using SetGhostscriptCommand_post [OF assms] by simp

lemma SetLatexCommand_False_unchanged:
  assumes "SetLatexCommand E fuel g latex_path s = Some (Inr False, g', s')"
  shows "g' = g"
  using SetLatexCommand_post [OF assms] by simp

subsection \<open>The scripted host, evaluated\<close>

text \<open>What the services of the scripted host return, and what the checks, the loop bodies,
  the setters and the parts of the constructor compute on it.\<close>

lemma desk_host_codec:
  "IntegerToString desk_host i = (if i = 0 then ''0'' else if i = 1 then ''1'' else ''2'')"
  "StringToInteger desk_host v = (if v = ''0'' then 0 else if v = ''1'' then 1 else 2)"
  by (simp_all add: desk_host_def)

lemma desk_host_exec:
  "ExecuteCommandLine desk_host command w =
     (if command = dquote @ ''/usr/bin/gs'' @ dquote @ '' -v''
      then Inr ''GPL Ghostscript 9.50 (2019-10-15)''
      else if command = dquote @ ''/usr/bin/true'' @ dquote @ '' -v''
      then Inr ''''
      else if command = ''pdflatex -version''
      then Inr ''pdfTeX 3.14159265-2.6-1.40.21''
      else if command = dquote @ ''/Library/TeX/texbin/pdflatex'' @ dquote @ '' -version''
      then Inr ''pdfTeX 3.14159265-2.6-1.40.21''
      else Inl (Foreign_Exception ''command failed''), w)"
  by (simp add: desk_host_def)

lemma desk_host_fs:
  "IsDirectory desk_host p w = (GetFullPath p \<in> set (directories w))"
  "IsFile desk_host p w = (files w (GetFullPath p) \<noteq> None)"
  "WIN_ENV desk_host = False"
  by (simp_all add: desk_host_def)

lemma desk_host_dialogs:
  "OKCancelAlert desk_host message w =
     (case ok_answers w of [] \<Rightarrow> (False, w) | a # as \<Rightarrow> (a, w\<lparr>ok_answers := as\<rparr>))"
  "GetFileDialog desk_host title p w =
     (case picked w of [] \<Rightarrow> ((kCanceledErr, p), w) | x # xs \<Rightarrow> (x, w\<lparr>picked := xs\<rparr>))"
  "GetDirectoryDialog desk_host title p w =
     (case picked w of [] \<Rightarrow> ((kCanceledErr, p), w) | x # xs \<Rightarrow> (x, w\<lparr>picked := xs\<rparr>))"
  by (simp_all add: desk_host_def)

lemma desk_gs_check:
  "CheckGhostscriptCommand desk_host g ''gs'' (desk calls answers picks)
     = (False, desk (calls @ [dquote @ ''gs'' @ dquote @ '' -v'']) answers picks)"
  "CheckGhostscriptCommand desk_host g ''/usr/bin/gs'' (desk calls answers picks)
     = (True, desk (calls @ [dquote @ ''/usr/bin/gs'' @ dquote @ '' -v'']) answers picks)"
  by (simp_all add: CheckGhostscriptCommand_def probe_command_def run_command_def
      desk_host_exec desk_def dquote_def)

lemma desk_gs_body:
  "SetGhostscriptCommand_body desk_host p (desk calls (True # answers) ((kNoErr, p') # picks))
     = (Next (GetFullPath p', p'), desk calls answers picks)"
  "OKCancelAlert desk_host message (host (desk calls (a # answers) picks))
     = (a, host (desk calls answers picks))"
  "GetFileDialog desk_host title p (host (desk calls answers []))
     = ((kCanceledErr, p), host (desk calls answers []))"
  "GetDirectoryDialog desk_host title p (host (desk calls answers []))
     = ((kCanceledErr, p), host (desk calls answers []))"
  "(desk calls answers picks)\<lparr>host := host (desk calls' answers' picks')\<rparr>
     = desk calls answers' picks'"
  by (simp_all add: SetGhostscriptCommand_body_def desk_host_dialogs desk_def
      l2a_check_ai_error_def)

lemma desk_latex_check:
  "CheckLatexCommand desk_host g (FilePath ''/Library/TeX/texbin'') (desk calls answers picks)
     = (True, desk (calls @ [dquote @ ''/Library/TeX/texbin/pdflatex'' @ dquote @ '' -version''])
          answers picks)"
  "CheckLatexCommand desk_host g (FilePath '''') (desk calls answers picks)
     = (True, desk (calls @ [''pdflatex -version'']) answers picks)"
  "CheckLatexCommand desk_host g (FilePath ''/nowhere'') (desk calls answers picks)
     = (False, desk calls answers picks)"
  "CheckLatexCommand (desk_host\<lparr>WIN_ENV := True\<rparr>) g (FilePath ''/nowhere'')
       (desk calls answers picks)
     = (False, desk calls answers picks)"
  by (simp_all add: CheckLatexCommand_def probe_command_def run_command_def
      desk_host_exec desk_host_fs desk_def dquote_def)

lemma desk_run_gs:
  "SetGhostscriptCommand desk_host (Suc (Suc 0)) g ''gs''
       (desk calls [True] [(kNoErr, FilePath ''/usr/bin/gs'')])
     = Some (Inr True, g\<lparr>gs_command_' := ''/usr/bin/gs''\<rparr>,
         desk (calls @ [dquote @ ''gs'' @ dquote @ '' -v'',
                        dquote @ ''/usr/bin/gs'' @ dquote @ '' -v'']) [] [])"
  "SetGhostscriptCommand desk_host (Suc n) g ''gs'' (desk calls [False] [])
     = Some (Inr False, g, desk (calls @ [dquote @ ''gs'' @ dquote @ '' -v'']) [] [])"
proof -
  show "SetGhostscriptCommand desk_host (Suc (Suc 0)) g ''gs''
       (desk calls [True] [(kNoErr, FilePath ''/usr/bin/gs'')])
     = Some (Inr True, g\<lparr>gs_command_' := ''/usr/bin/gs''\<rparr>,
         desk (calls @ [dquote @ ''gs'' @ dquote @ '' -v'',
                        dquote @ ''/usr/bin/gs'' @ dquote @ '' -v'']) [] [])"
    by (simp add: SetGhostscriptCommand_def desk_gs_check desk_gs_body)
  show "SetGhostscriptCommand desk_host (Suc n) g ''gs'' (desk calls [False] [])
     = Some (Inr False, g, desk (calls @ [dquote @ ''gs'' @ dquote @ '' -v'']) [] [])"
    by (simp add: SetGhostscriptCommand_def desk_gs_check SetGhostscriptCommand_body_def
        desk_gs_body(2,5))
qed

lemma desk_run_latex:
  "SetLatexCommand desk_host (Suc n) g latex_path (desk calls answers picks)
     = Some (Inr True, g\<lparr>latex_bin_path_' := FilePath ''/Library/TeX/texbin''\<rparr>,
         desk (calls @ [dquote @ ''/Library/TeX/texbin/pdflatex'' @ dquote @ '' -version''])
           answers picks)"
  by (simp add: SetLatexCommand_def desk_latex_check desk_host_fs)

lemma desk_host_misc:
  "CheckGithubVersion desk_host w = w"
  "GetApplicationDataDirectory desk_host w = FilePath ''/appdata''"
  "CreateDirectoryL2A desk_host p w = w"
  "ClearTemporaryDirectory desk_host w = w"
  "RemoveFile desk_host p w = w\<lparr>files := (files w)(GetFullPath p := None)\<rparr>"
  "ReadFileUTF8 desk_host p w = (case files w (GetFullPath p) of None \<Rightarrow> [] | Some c \<Rightarrow> c)"
  "ParameterList_of_xml desk_host xml =
     (if xml = ''<LaTeX2AI_options/>'' then Inr Map.empty
      else Inl (L2A_Exception ''malformed document''))"
  "GetGhostScriptCommand desk_host w = ''gs''"
  "WarningAlert desk_host message w = w"
  by (simp_all add: desk_host_def)

lemma desk_default_config: "default_config desk_host (FilePath ''/appdata'') = example_Global"
  by (simp add: default_config_def example_Global_def desk_host_codec bool_of_int_def
      int_of_bool_def)

lemma desk_gs_check_empty:
  "CheckGhostscriptCommand desk_host g '''' (desk calls answers picks)
     = (False, desk (calls @ [dquote @ dquote @ '' -v'']) answers picks)"
  by (simp add: CheckGhostscriptCommand_def probe_command_def run_command_def
      desk_host_exec desk_def dquote_def)

lemma desk_validate_commands:
  "validate_commands desk_host (Suc (Suc 0)) example_Global
       (desk [] [True] [(kNoErr, FilePath ''/usr/bin/gs'')])
     = Some (Inr (), example_Global\<lparr>gs_command_' := ''/usr/bin/gs''\<rparr>,
         desk [dquote @ dquote @ '' -v'', dquote @ ''gs'' @ dquote @ '' -v'',
               dquote @ ''/usr/bin/gs'' @ dquote @ '' -v'', ''pdflatex -version''] [] [])"
proof -
  have stored: "gs_command_' example_Global = ''''"
    "latex_bin_path_' (example_Global\<lparr>gs_command_' := ''/usr/bin/gs''\<rparr>) = FilePath ''''"
    by (simp_all add: example_Global_def)
  show ?thesis
    by (simp add: validate_commands_def validate_latex_command_def stored desk_gs_check_empty
        desk_host_misc(8) desk_run_gs(1) desk_latex_check(2))
qed

lemma desk_corrupt_removed:
  "(desk_corrupt calls answers picks)
     \<lparr>host := ClearTemporaryDirectory desk_host
        (RemoveFile desk_host (AddComponent ''LaTeX2AI_application_data.xml'' (FilePath ''/appdata''))
          (CreateDirectoryL2A desk_host (FilePath ''/appdata'')
            (CheckGithubVersion desk_host (host (desk_corrupt calls answers picks)))))\<rparr>
   = desk calls answers picks"
  by (simp add: desk_host_misc desk_corrupt_def desk_def)

lemma desk_host_without_tex_sel:
  "ExecuteCommandLine desk_host_without_tex command w =
     (if command = dquote @ ''/usr/bin/gs'' @ dquote @ '' -v''
      then Inr ''GPL Ghostscript 9.50 (2019-10-15)''
      else Inl (Foreign_Exception ''command failed''), w)"
  "OKCancelAlert desk_host_without_tex = OKCancelAlert desk_host"
  "GetFileDialog desk_host_without_tex = GetFileDialog desk_host"
  "GetDirectoryDialog desk_host_without_tex = GetDirectoryDialog desk_host"
  "WarningAlert desk_host_without_tex = WarningAlert desk_host"
  "IsDirectory desk_host_without_tex = IsDirectory desk_host"
  "IsFile desk_host_without_tex = IsFile desk_host"
  "ReadFileUTF8 desk_host_without_tex = ReadFileUTF8 desk_host"
  "RemoveFile desk_host_without_tex = RemoveFile desk_host"
  "CreateDirectoryL2A desk_host_without_tex = CreateDirectoryL2A desk_host"
  "ClearTemporaryDirectory desk_host_without_tex = ClearTemporaryDirectory desk_host"
  "CheckGithubVersion desk_host_without_tex = CheckGithubVersion desk_host"
  "GetApplicationDataDirectory desk_host_without_tex = GetApplicationDataDirectory desk_host"
  "GetGhostScriptCommand desk_host_without_tex = GetGhostScriptCommand desk_host"
  "ParameterList_of_xml desk_host_without_tex = ParameterList_of_xml desk_host"
  "IntegerToString desk_host_without_tex = IntegerToString desk_host"
  "StringToInteger desk_host_without_tex = StringToInteger desk_host"
  "WIN_ENV desk_host_without_tex = WIN_ENV desk_host"
  by (simp_all add: desk_host_without_tex_def)

lemma desk_no_settings_file:
  "initialise_and_load desk_host g0 (desk calls answers picks)
     = (Inr (), example_Global, desk calls answers picks)"
  "initialise_and_load desk_host_without_tex g0 (desk calls answers picks)
     = (Inr (), example_Global, desk calls answers picks)"
proof -
  have dc: "default_config desk_host_without_tex (FilePath ''/appdata'') = example_Global"
    by (simp add: default_config_def example_Global_def desk_host_without_tex_sel
        desk_host_codec bool_of_int_def int_of_bool_def)
  have path: "application_data_path_' example_Global
      = FilePath ''/appdata/LaTeX2AI_application_data.xml''"
    by (simp add: example_Global_def)
  show "initialise_and_load desk_host g0 (desk calls answers picks)
     = (Inr (), example_Global, desk calls answers picks)"
    by (simp add: initialise_and_load_eq load_settings_file_def desk_host_misc desk_host_fs
        desk_default_config path desk_def)
  show "initialise_and_load desk_host_without_tex g0 (desk calls answers picks)
     = (Inr (), example_Global, desk calls answers picks)"
    by (simp add: initialise_and_load_eq load_settings_file_def desk_host_without_tex_sel
        desk_host_misc desk_host_fs dc path desk_def)
qed

lemma desk_without_tex_gs_check:
  "CheckGhostscriptCommand desk_host_without_tex g '''' (desk calls answers picks)
     = (False, desk (calls @ [dquote @ dquote @ '' -v'']) answers picks)"
  "CheckGhostscriptCommand desk_host_without_tex g ''gs'' (desk calls answers picks)
     = (False, desk (calls @ [dquote @ ''gs'' @ dquote @ '' -v'']) answers picks)"
  "CheckGhostscriptCommand desk_host_without_tex g ''/usr/bin/gs'' (desk calls answers picks)
     = (True, desk (calls @ [dquote @ ''/usr/bin/gs'' @ dquote @ '' -v'']) answers picks)"
  by (simp_all add: CheckGhostscriptCommand_def probe_command_def run_command_def
      desk_host_without_tex_sel desk_def dquote_def)

lemma desk_without_tex_latex_check:
  "CheckLatexCommand desk_host_without_tex g (FilePath '''') (desk calls answers picks)
     = (False, desk (calls @ [''pdflatex -version'']) answers picks)"
  "CheckLatexCommand desk_host_without_tex g (FilePath ''/Library/TeX/texbin'')
       (desk calls answers picks)
     = (False,
        desk (calls @ [dquote @ ''/Library/TeX/texbin/pdflatex'' @ dquote @ '' -version''])
          answers picks)"
  by (simp_all add: CheckLatexCommand_def probe_command_def run_command_def
      desk_host_without_tex_sel desk_host_exec desk_host_fs desk_def dquote_def)

lemma desk_without_tex_bodies:
  "SetGhostscriptCommand_body desk_host_without_tex p s = SetGhostscriptCommand_body desk_host p s"
  "SetLatexCommand_body desk_host_without_tex p s = SetLatexCommand_body desk_host p s"
  unfolding SetGhostscriptCommand_body_def SetLatexCommand_body_def desk_host_without_tex_sel
  by (rule refl)+

lemma desk_latex_body_cancel:
  "SetLatexCommand_body desk_host p (desk calls (False # answers) picks)
     = (Return False, desk calls answers picks)"
  by (simp add: SetLatexCommand_body_def desk_host_dialogs desk_def)

lemma desk_without_tex_run_gs:
  "SetGhostscriptCommand desk_host_without_tex (Suc (Suc 0)) g ''gs''
       (desk calls (True # answers) [(kNoErr, FilePath ''/usr/bin/gs'')])
     = Some (Inr True, g\<lparr>gs_command_' := ''/usr/bin/gs''\<rparr>,
         desk (calls @ [dquote @ ''gs'' @ dquote @ '' -v'',
                        dquote @ ''/usr/bin/gs'' @ dquote @ '' -v'']) answers [])"
  by (simp add: SetGhostscriptCommand_def desk_without_tex_gs_check desk_without_tex_bodies
      desk_gs_body(1))

lemma desk_without_tex_run_latex:
  "SetLatexCommand desk_host_without_tex (Suc n) g latex_path (desk calls [False] [])
     = Some (Inr False, g,
         desk (calls @ [dquote @ ''/Library/TeX/texbin/pdflatex'' @ dquote @ '' -version''])
           [] [])"
  by (simp add: SetLatexCommand_def desk_without_tex_latex_check desk_host_without_tex_sel
      desk_host_fs desk_without_tex_bodies desk_latex_body_cancel)

subsection \<open>Encoding and decoding\<close>

text \<open>
  Claim C1. For every object \<open>g\<close>, decoding the parameter list that \<^verbatim>\<open>ToParameterList\<close>
  writes gives back the six persisted fields of \<open>g\<close>, whatever object \<open>g0\<close> they are
  decoded into and whatever the list \<open>pl\<close> held before, and the decoding returns
  \<^verbatim>\<open>true\<close>; decoded into \<open>g\<close> itself it gives \<open>g\<close>. The keys written into an empty list
  are the six keys that are read. \<^verbatim>\<open>ToString\<close> is the document of that same list.
  The one thing asked of the collaborators is that the integer conversions give a boolean
  back: the integer read from the string written for it is nonzero exactly for \<^verbatim>\<open>true\<close>.
\<close>

theorem ToParameterList_SetFromParameterList_roundtrip:
  assumes codec: "\<forall>b. bool_of_int (StringToInteger E (IntegerToString E (int_of_bool b))) = b"
  shows "SetFromParameterList E (ToParameterList E g pl) g0 =
           (Inr True,
            g0\<lparr>latex_bin_path_' := latex_bin_path_' g,
               latex_engine_' := latex_engine_' g,
               latex_command_options_' := latex_command_options_' g,
               gs_command_' := gs_command_' g,
               warning_boundary_boxes_' := warning_boundary_boxes_' g,
               warning_ai_not_saved_' := warning_ai_not_saved_' g\<rparr>)
         \<and> SetFromParameterList E (ToParameterList E g pl) g = (Inr True, g)
         \<and> dom (ToParameterList E g Map.empty) = set recognized_keys
         \<and> ToString E g = ToXMLString E (ToParameterList E g Map.empty) ''LaTeX2AI_options''"
proof -
  have present: "\<forall>k \<in> set recognized_keys. ToParameterList E g pl k \<noteq> None"
    using dom_ToParameterList [of E g pl] by blast
  have decoded: "overlay_spec E (ToParameterList E g pl) g' =
      g'\<lparr>latex_bin_path_' := latex_bin_path_' g,
         latex_engine_' := latex_engine_' g,
         latex_command_options_' := latex_command_options_' g,
         gs_command_' := gs_command_' g,
         warning_boundary_boxes_' := warning_boundary_boxes_' g,
         warning_ai_not_saved_' := warning_ai_not_saved_' g\<rparr>" for g'
    by (simp add: overlay_spec_def ToParameterList_lookup FilePath_GetFullPath codec)
  have into: "SetFromParameterList E (ToParameterList E g pl) g' = (Inr True,
      g'\<lparr>latex_bin_path_' := latex_bin_path_' g,
         latex_engine_' := latex_engine_' g,
         latex_command_options_' := latex_command_options_' g,
         gs_command_' := gs_command_' g,
         warning_boundary_boxes_' := warning_boundary_boxes_' g,
         warning_ai_not_saved_' := warning_ai_not_saved_' g\<rparr>)" for g'
    using present by (simp add: SetFromParameterList_overlay decoded)
  have same: "SetFromParameterList E (ToParameterList E g pl) g = (Inr True, g)"
    by (simp add: into)
  have keys: "dom (ToParameterList E g Map.empty) = set recognized_keys"
    by (simp add: dom_ToParameterList)
  show ?thesis
    using into same keys by (simp add: ToString_def)
qed

theorem ToParameterList_SetFromParameterList_roundtrip_witness:
  "SetFromParameterList desk_host
       (ToParameterList desk_host
          (example_Global\<lparr>gs_command_' := ''/usr/bin/gs'', warning_ai_not_saved_' := False\<rparr>)
          Map.empty)
       example_Global
     = (Inr True,
        example_Global\<lparr>gs_command_' := ''/usr/bin/gs'', warning_ai_not_saved_' := False\<rparr>)"
proof -
  have codec: "\<forall>b. bool_of_int
      (StringToInteger desk_host (IntegerToString desk_host (int_of_bool b))) = b"
    by (simp add: desk_host_def bool_of_int_def int_of_bool_def)
  show ?thesis
    using ToParameterList_SetFromParameterList_roundtrip [OF codec,
        of "example_Global\<lparr>gs_command_' := ''/usr/bin/gs'', warning_ai_not_saved_' := False\<rparr>"
          Map.empty example_Global]
    by (simp add: example_Global_def)
qed

text \<open>
  Claim C2. Let \<open>pl\<close> be a parameter list in which exactly one of the six keys, \<open>k\<close>, is
  missing. Applied to any object \<open>g\<close>, in particular to the one that holds the defaults,
  \<^verbatim>\<open>SetFromParameterList\<close> raises nothing and returns \<^verbatim>\<open>false\<close>; the new object is
  the overlay of \<open>pl\<close> on \<open>g\<close>: the field of \<open>k\<close> is the one of \<open>g\<close>, the field of each
  key that is present is the value decoded from the stored string, and the three fields
  that are not persisted are untouched.
\<close>

theorem SetFromParameterList_one_key_missing:
  assumes k: "k \<in> set recognized_keys"
    and absent: "pl k = None"
    and others: "\<forall>k' \<in> set recognized_keys. k' \<noteq> k \<longrightarrow> pl k' \<noteq> None"
  shows "SetFromParameterList E pl g = (Inr False, overlay_spec E pl g)
           \<and> field_of k (overlay_spec E pl g) = field_of k g
           \<and> (\<forall>k' \<in> set recognized_keys. \<forall>v. pl k' = Some v \<longrightarrow>
                 field_of k' (overlay_spec E pl g) = decoded_value E k' v)
           \<and> is_testing_' (overlay_spec E pl g) = is_testing_' g
           \<and> application_data_path_' (overlay_spec E pl g) = application_data_path_' g
           \<and> l2a_item_last_input_' (overlay_spec E pl g) = l2a_item_last_input_' g"
proof -
  have "\<not> (\<forall>k \<in> set recognized_keys. pl k \<noteq> None)"
    using k absent by blast
  then have run: "SetFromParameterList E pl g = (Inr False, overlay_spec E pl g)"
    by (simp add: SetFromParameterList_overlay)
  have rest: "is_testing_' (overlay_spec E pl g) = is_testing_' g"
    "application_data_path_' (overlay_spec E pl g) = application_data_path_' g"
    "l2a_item_last_input_' (overlay_spec E pl g) = l2a_item_last_input_' g"
    by (simp_all add: overlay_spec_def)
  have kept: "field_of k (overlay_spec E pl g) = field_of k g"
    using absent by (rule field_of_overlay_absent)
  have taken: "\<forall>k' \<in> set recognized_keys. \<forall>v. pl k' = Some v \<longrightarrow>
      field_of k' (overlay_spec E pl g) = decoded_value E k' v"
    by (simp add: field_of_overlay_present)
  show ?thesis
    using run rest kept taken by simp
qed

theorem SetFromParameterList_one_key_missing_witness:
  "SetFromParameterList desk_host
      [''latex_bin_path'' \<mapsto> ''/opt/tex'', ''latex_command_options'' \<mapsto> ''-x'',
       ''gs_command'' \<mapsto> ''/usr/bin/gs'', ''warning_boundary_boxes'' \<mapsto> ''0'',
       ''warning_ai_not_saved'' \<mapsto> ''1'']
      (default_config desk_host (FilePath ''/appdata''))
    = (Inr False,
       (default_config desk_host (FilePath ''/appdata''))
         \<lparr>latex_bin_path_' := FilePath ''/opt/tex'', latex_command_options_' := ''-x'',
          gs_command_' := ''/usr/bin/gs'', warning_boundary_boxes_' := False\<rparr>)
    \<and> latex_engine_' (default_config desk_host (FilePath ''/appdata'')) = ''pdflatex''"
proof -
  let ?pl = "[''latex_bin_path'' \<mapsto> ''/opt/tex'', ''latex_command_options'' \<mapsto> ''-x'',
       ''gs_command'' \<mapsto> ''/usr/bin/gs'', ''warning_boundary_boxes'' \<mapsto> ''0'',
       ''warning_ai_not_saved'' \<mapsto> ''1'']"
  have k: "''latex_engine'' \<in> set recognized_keys"
    by (simp add: recognized_keys_def)
  have absent: "?pl ''latex_engine'' = None"
    by simp
  have others: "\<forall>k' \<in> set recognized_keys. k' \<noteq> ''latex_engine'' \<longrightarrow> ?pl k' \<noteq> None"
    by (simp add: recognized_keys_def)
  have run: "SetFromParameterList desk_host ?pl (default_config desk_host (FilePath ''/appdata''))
      = (Inr False,
         overlay_spec desk_host ?pl (default_config desk_host (FilePath ''/appdata'')))"
    by (rule SetFromParameterList_one_key_missing [OF k absent others, THEN conjunct1])
  have ov: "overlay_spec desk_host ?pl (default_config desk_host (FilePath ''/appdata'')) =
      (default_config desk_host (FilePath ''/appdata''))
         \<lparr>latex_bin_path_' := FilePath ''/opt/tex'', latex_command_options_' := ''-x'',
          gs_command_' := ''/usr/bin/gs'', warning_boundary_boxes_' := False\<rparr>"
    by (simp add: overlay_spec_def default_config_def desk_host_codec bool_of_int_def
        int_of_bool_def)
  have engine: "latex_engine_' (default_config desk_host (FilePath ''/appdata'')) = ''pdflatex''"
    by (simp add: default_config_def)
  show ?thesis
    unfolding run ov using engine by simp
qed

subsection \<open>The constructor\<close>

text \<open>
  Claim C3. Let the settings file exist when the constructor looks for it, that is, in the
  host state \<open>h2\<close> left by the version check and the creation of the application data
  directory, and let the parameter list constructor raise its exception on the contents
  of the file. Then loading the settings raises nothing, leaves the object at the defaults
  and removes the settings file; the part of the constructor before the validation ends
  without an exception with the all-defaults object; and the constructor as a whole does
  what the validation of the two commands does from that object. Whatever object the
  constructor started from plays no role.
\<close>

theorem corrupt_settings_file_removed_defaults_kept:
  fixes E :: "'w Collaborators" and s0 :: "'w World"
  defines "h1 \<equiv> CheckGithubVersion E (host s0)"
  defines "dir \<equiv> GetApplicationDataDirectory E h1"
  defines "h2 \<equiv> CreateDirectoryL2A E dir h1"
  defines "settings \<equiv> AddComponent ''LaTeX2AI_application_data.xml'' dir"
  assumes exists: "IsFile E settings h2"
    and corrupt: "ParameterList_of_xml E (ReadFileUTF8 E settings h2) = Inl (L2A_Exception m)"
  shows "load_settings_file E (default_config E dir) (s0\<lparr>host := h2\<rparr>)
           = (Inr (), default_config E dir, s0\<lparr>host := RemoveFile E settings h2\<rparr>)
       \<and> initialise_and_load E g0 s0
           = (Inr (), default_config E dir,
              s0\<lparr>host := ClearTemporaryDirectory E (RemoveFile E settings h2)\<rparr>)
       \<and> Global_ctor E fuel g0 s0
           = validate_commands E fuel (default_config E dir)
               (s0\<lparr>host := ClearTemporaryDirectory E (RemoveFile E settings h2)\<rparr>)"
proof -
  have load: "load_settings_file E (default_config E dir) (s0\<lparr>host := h2\<rparr>)
      = (Inr (), default_config E dir, s0\<lparr>host := RemoveFile E settings h2\<rparr>)"
    using load_settings_file_corrupt [of E "default_config E dir" "s0\<lparr>host := h2\<rparr>" m]
      exists corrupt
    by (simp add: default_config_path settings_def)
  have init: "initialise_and_load E g0 s0
      = (Inr (), default_config E dir,
         s0\<lparr>host := ClearTemporaryDirectory E (RemoveFile E settings h2)\<rparr>)"
    using load by (simp add: initialise_and_load_eq Let_def h1_def dir_def h2_def)
  have ctor: "Global_ctor E fuel g0 s0
      = validate_commands E fuel (default_config E dir)
          (s0\<lparr>host := ClearTemporaryDirectory E (RemoveFile E settings h2)\<rparr>)"
    by (simp add: Global_ctor_def init)
  show ?thesis
    using load init ctor by (intro conjI)
qed

theorem corrupt_settings_file_removed_defaults_kept_witness:
  "initialise_and_load desk_host (example_Global\<lparr>is_testing_' := True, gs_command_' := ''x''\<rparr>)
       (desk_corrupt [] [True] [(kNoErr, FilePath ''/usr/bin/gs'')])
     = (Inr (), example_Global, desk [] [True] [(kNoErr, FilePath ''/usr/bin/gs'')])
   \<and> Global_ctor desk_host (Suc (Suc 0))
       (example_Global\<lparr>is_testing_' := True, gs_command_' := ''x''\<rparr>)
       (desk_corrupt [] [True] [(kNoErr, FilePath ''/usr/bin/gs'')])
     = Some (Inr (), example_Global\<lparr>gs_command_' := ''/usr/bin/gs''\<rparr>,
         desk [dquote @ dquote @ '' -v'', dquote @ ''gs'' @ dquote @ '' -v'',
               dquote @ ''/usr/bin/gs'' @ dquote @ '' -v'', ''pdflatex -version''] [] [])"
proof -
  let ?s0 = "desk_corrupt [] [True] [(kNoErr, FilePath ''/usr/bin/gs'')]"
  let ?h1 = "CheckGithubVersion desk_host (host ?s0)"
  let ?dir = "GetApplicationDataDirectory desk_host ?h1"
  let ?h2 = "CreateDirectoryL2A desk_host ?dir ?h1"
  let ?settings = "AddComponent ''LaTeX2AI_application_data.xml'' ?dir"
  have exists: "IsFile desk_host ?settings ?h2"
    by (simp add: desk_host_misc desk_host_fs desk_corrupt_def)
  have corrupt: "ParameterList_of_xml desk_host (ReadFileUTF8 desk_host ?settings ?h2)
      = Inl (L2A_Exception ''malformed document'')"
    by (simp add: desk_host_misc desk_corrupt_def)
  note run = corrupt_settings_file_removed_defaults_kept [OF exists corrupt,
      of "example_Global\<lparr>is_testing_' := True, gs_command_' := ''x''\<rparr>" "Suc (Suc 0)"]
  have dir: "?dir = FilePath ''/appdata''"
    by (simp add: desk_host_misc)
  have 1: "initialise_and_load desk_host
      (example_Global\<lparr>is_testing_' := True, gs_command_' := ''x''\<rparr>) ?s0
      = (Inr (), example_Global, desk [] [True] [(kNoErr, FilePath ''/usr/bin/gs'')])"
    using run [THEN conjunct2, THEN conjunct1]
    unfolding dir desk_default_config desk_corrupt_removed .
  have 2: "Global_ctor desk_host (Suc (Suc 0))
      (example_Global\<lparr>is_testing_' := True, gs_command_' := ''x''\<rparr>) ?s0
      = Some (Inr (), example_Global\<lparr>gs_command_' := ''/usr/bin/gs''\<rparr>,
         desk [dquote @ dquote @ '' -v'', dquote @ ''gs'' @ dquote @ '' -v'',
               dquote @ ''/usr/bin/gs'' @ dquote @ '' -v'', ''pdflatex -version''] [] [])"
    using run [THEN conjunct2, THEN conjunct2]
    unfolding dir desk_default_config desk_corrupt_removed desk_validate_commands .
  show ?thesis
    using 1 2 by (intro conjI)
qed

subsection \<open>The validation predicates\<close>

text \<open>
  Claim C4. For every candidate string, \<^verbatim>\<open>CheckGhostscriptCommand\<close> passes exactly one
  command line to the command execution service: the candidate between double quotes,
  followed by \<^verbatim>\<open> -v\<close>. It returns \<^verbatim>\<open>true\<close> if and only if the service returned an
  output in which \<^verbatim>\<open> Ghostscript \<close> occurs; if the service raised, whatever the
  exception, it returns \<^verbatim>\<open>false\<close>. It has no exception of its own to propagate, and its
  result does not depend on the object: it is a \<^verbatim>\<open>const\<close> method and returns no object.
\<close>

theorem CheckGhostscriptCommand_spec:
  "CheckGhostscriptCommand E g gs_command s =
     ((\<exists>ps ss. fst (ExecuteCommandLine E (dquote @ gs_command @ dquote @ '' -v'') (host s))
                 = Inr (ps @ '' Ghostscript '' @ ss)),
      \<lparr>exec_calls = exec_calls s @ [dquote @ gs_command @ dquote @ '' -v''],
       host = snd (ExecuteCommandLine E (dquote @ gs_command @ dquote @ '' -v'') (host s))\<rparr>)
   \<and> (\<forall>e. fst (ExecuteCommandLine E (dquote @ gs_command @ dquote @ '' -v'') (host s)) = Inl e
          \<longrightarrow> fst (CheckGhostscriptCommand E g gs_command s) = False)
   \<and> CheckGhostscriptCommand E g' gs_command s = CheckGhostscriptCommand E g gs_command s"
  by (auto simp: CheckGhostscriptCommand_def probe_command_eq find_not_npos_iff Let_def
      split: sum.splits)

theorem CheckGhostscriptCommand_spec_witness:
  "fst (ExecuteCommandLine desk_host (dquote @ ''/nowhere/gs'' @ dquote @ '' -v'')
          (host (desk [] [] []))) = Inl (Foreign_Exception ''command failed'')
   \<and> fst (CheckGhostscriptCommand desk_host example_Global ''/nowhere/gs'' (desk [] [] [])) = False
   \<and> fst (CheckGhostscriptCommand desk_host example_Global ''/usr/bin/gs'' (desk [] [] []))"
proof -
  have failing: "fst (ExecuteCommandLine desk_host (dquote @ ''/nowhere/gs'' @ dquote @ '' -v'')
          (host (desk [] [] []))) = Inl (Foreign_Exception ''command failed'')"
    by (simp add: desk_host_exec dquote_def)
  have no: "fst (CheckGhostscriptCommand desk_host example_Global ''/nowhere/gs'' (desk [] [] []))
      = False"
    by (rule CheckGhostscriptCommand_spec [of desk_host example_Global "''/nowhere/gs''"
          "desk [] [] []", THEN conjunct2, THEN conjunct1, rule_format, OF failing])
  have running: "fst (ExecuteCommandLine desk_host (dquote @ ''/usr/bin/gs'' @ dquote @ '' -v'')
          (host (desk [] [] []))) = Inr (''GPL'' @ '' Ghostscript '' @ ''9.50 (2019-10-15)'')"
    by (simp add: desk_host_exec)
  have marker: "\<exists>ps ss. fst (ExecuteCommandLine desk_host
          (dquote @ ''/usr/bin/gs'' @ dquote @ '' -v'') (host (desk [] [] [])))
        = Inr (ps @ '' Ghostscript '' @ ss)"
    by (rule exI [of _ "''GPL''"], rule exI [of _ "''9.50 (2019-10-15)''"]) (rule running)
  have eq: "fst (CheckGhostscriptCommand desk_host example_Global ''/usr/bin/gs'' (desk [] [] []))
      = (\<exists>ps ss. fst (ExecuteCommandLine desk_host
          (dquote @ ''/usr/bin/gs'' @ dquote @ '' -v'') (host (desk [] [] [])))
        = Inr (ps @ '' Ghostscript '' @ ss))"
    by (simp only: CheckGhostscriptCommand_spec [of desk_host example_Global "''/usr/bin/gs''"
          "desk [] [] []", THEN conjunct1] fst_conv)
  have yes: "fst (CheckGhostscriptCommand desk_host example_Global ''/usr/bin/gs'' (desk [] [] []))"
    unfolding eq by (rule marker)
  show ?thesis
    by (intro conjI) (rule failing, rule no, rule yes)
qed

text \<open>
  Claim C5. \<^verbatim>\<open>CheckLatexCommand\<close> tests for a directory first. For a candidate that is a
  directory it runs the quoted \<^verbatim>\<open>"<dir>/pdflatex"\<close> (\<^verbatim>\<open>pdflatex.exe\<close> under
  \<^verbatim>\<open>WIN_ENV\<close>) with \<^verbatim>\<open> -version\<close>; for the empty candidate, which is then not a
  directory, it runs the bare \<^verbatim>\<open>pdflatex -version\<close>; for any other candidate it returns
  \<^verbatim>\<open>false\<close> and leaves the state as it was, the list of executed command lines included.
  When it runs a command, that is the only one, and the result is \<^verbatim>\<open>true\<close> if and only
  if the captured output contains \<^verbatim>\<open>pdfTeX\<close>; if the run raised, the result is
  \<^verbatim>\<open>false\<close>.
\<close>

theorem CheckLatexCommand_spec:
  "(IsDirectory E path_latex (host s) \<longrightarrow>
      (let command = dquote @ GetFullPath path_latex @ ''/''
                       @ (if WIN_ENV E then ''pdflatex.exe'' else ''pdflatex'') @ dquote
                       @ '' -version''
       in CheckLatexCommand E g path_latex s =
            ((\<exists>ps ss. fst (ExecuteCommandLine E command (host s)) = Inr (ps @ ''pdfTeX'' @ ss)),
             \<lparr>exec_calls = exec_calls s @ [command],
              host = snd (ExecuteCommandLine E command (host s))\<rparr>)))
   \<and> (\<not> IsDirectory E path_latex (host s) \<and> IsEmpty path_latex \<longrightarrow>
        CheckLatexCommand E g path_latex s =
          ((\<exists>ps ss. fst (ExecuteCommandLine E ''pdflatex -version'' (host s))
                      = Inr (ps @ ''pdfTeX'' @ ss)),
           \<lparr>exec_calls = exec_calls s @ [''pdflatex -version''],
            host = snd (ExecuteCommandLine E ''pdflatex -version'' (host s))\<rparr>))
   \<and> (\<not> IsDirectory E path_latex (host s) \<and> \<not> IsEmpty path_latex \<longrightarrow>
        CheckLatexCommand E g path_latex s = (False, s))
   \<and> (\<forall>command e.
         exec_calls (snd (CheckLatexCommand E g path_latex s)) = exec_calls s @ [command]
         \<and> fst (ExecuteCommandLine E command (host s)) = Inl e
         \<longrightarrow> fst (CheckLatexCommand E g path_latex s) = False)"
proof -
  have dir: "IsDirectory E path_latex (host s) \<longrightarrow>
      (let command = dquote @ GetFullPath path_latex @ ''/''
                       @ (if WIN_ENV E then ''pdflatex.exe'' else ''pdflatex'') @ dquote
                       @ '' -version''
       in CheckLatexCommand E g path_latex s =
            ((\<exists>ps ss. fst (ExecuteCommandLine E command (host s)) = Inr (ps @ ''pdfTeX'' @ ss)),
             \<lparr>exec_calls = exec_calls s @ [command],
              host = snd (ExecuteCommandLine E command (host s))\<rparr>))"
    by (simp add: CheckLatexCommand_def Let_def probe_command_marker AddComponent_GetFullPath)
  have empty: "\<not> IsDirectory E path_latex (host s) \<and> IsEmpty path_latex \<longrightarrow>
        CheckLatexCommand E g path_latex s =
          ((\<exists>ps ss. fst (ExecuteCommandLine E ''pdflatex -version'' (host s))
                      = Inr (ps @ ''pdfTeX'' @ ss)),
           \<lparr>exec_calls = exec_calls s @ [''pdflatex -version''],
            host = snd (ExecuteCommandLine E ''pdflatex -version'' (host s))\<rparr>)"
    by (simp add: CheckLatexCommand_def probe_command_marker)
  have other: "\<not> IsDirectory E path_latex (host s) \<and> \<not> IsEmpty path_latex \<longrightarrow>
        CheckLatexCommand E g path_latex s = (False, s)"
    by (simp add: CheckLatexCommand_def)
  have raised: "\<forall>command e.
         exec_calls (snd (CheckLatexCommand E g path_latex s)) = exec_calls s @ [command]
         \<and> fst (ExecuteCommandLine E command (host s)) = Inl e
         \<longrightarrow> fst (CheckLatexCommand E g path_latex s) = False"
    by (auto simp: CheckLatexCommand_def Let_def probe_command_eq split: if_splits)
  show ?thesis
    using dir empty other raised by (intro conjI)
qed

theorem CheckLatexCommand_spec_witness:
  "CheckLatexCommand desk_host example_Global (FilePath ''/nowhere'') (desk [] [] [])
     = (False, desk [] [] [])
   \<and> exec_calls (snd (CheckLatexCommand desk_host example_Global (FilePath '''') (desk [] [] [])))
     = [''pdflatex -version'']
   \<and> exec_calls (snd (CheckLatexCommand desk_host example_Global
          (FilePath ''/Library/TeX/texbin'') (desk [] [] [])))
     = [dquote @ ''/Library/TeX/texbin/pdflatex'' @ dquote @ '' -version'']
   \<and> fst (CheckLatexCommand desk_host example_Global (FilePath ''/appdata'') (desk [] [] []))
     = False"
proof -
  have other: "\<not> IsDirectory desk_host (FilePath ''/nowhere'') (host (desk [] [] []))
      \<and> \<not> IsEmpty (FilePath ''/nowhere'')"
    by (simp add: desk_host_fs desk_def)
  have 1: "CheckLatexCommand desk_host example_Global (FilePath ''/nowhere'') (desk [] [] [])
      = (False, desk [] [] [])"
    by (rule CheckLatexCommand_spec [of desk_host "FilePath ''/nowhere''" "desk [] [] []"
          example_Global, THEN conjunct2, THEN conjunct2, THEN conjunct1, THEN mp, OF other])
  have empty: "\<not> IsDirectory desk_host (FilePath '''') (host (desk [] [] []))
      \<and> IsEmpty (FilePath '''')"
    by (simp add: desk_host_fs desk_def)
  have 2: "exec_calls (snd (CheckLatexCommand desk_host example_Global (FilePath '''')
      (desk [] [] []))) = [''pdflatex -version'']"
    using CheckLatexCommand_spec [of desk_host "FilePath ''''" "desk [] [] []" example_Global,
        THEN conjunct2, THEN conjunct1, THEN mp, OF empty]
    by (simp add: desk_def)
  have dir: "IsDirectory desk_host (FilePath ''/Library/TeX/texbin'') (host (desk [] [] []))"
    by (simp add: desk_host_fs desk_def)
  have 3: "exec_calls (snd (CheckLatexCommand desk_host example_Global
          (FilePath ''/Library/TeX/texbin'') (desk [] [] [])))
     = [dquote @ ''/Library/TeX/texbin/pdflatex'' @ dquote @ '' -version'']"
    using CheckLatexCommand_spec [of desk_host "FilePath ''/Library/TeX/texbin''" "desk [] [] []"
        example_Global, THEN conjunct1, THEN mp, OF dir]
    by (simp add: Let_def desk_host_fs desk_def)
  have dir': "IsDirectory desk_host (FilePath ''/appdata'') (host (desk [] [] []))"
    by (simp add: desk_host_fs desk_def)
  have calls: "exec_calls (snd (CheckLatexCommand desk_host example_Global
          (FilePath ''/appdata'') (desk [] [] [])))
     = exec_calls (desk [] [] []) @ [dquote @ ''/appdata/pdflatex'' @ dquote @ '' -version'']"
    using CheckLatexCommand_spec [of desk_host "FilePath ''/appdata''" "desk [] [] []"
        example_Global, THEN conjunct1, THEN mp, OF dir']
    by (simp add: Let_def desk_host_fs desk_def)
  have raised: "fst (ExecuteCommandLine desk_host
      (dquote @ ''/appdata/pdflatex'' @ dquote @ '' -version'') (host (desk [] [] [])))
      = Inl (Foreign_Exception ''command failed'')"
    by (simp add: desk_host_exec dquote_def)
  have 4: "fst (CheckLatexCommand desk_host example_Global (FilePath ''/appdata'') (desk [] [] []))
     = False"
    by (rule CheckLatexCommand_spec [of desk_host "FilePath ''/appdata''" "desk [] [] []"
          example_Global, THEN conjunct2, THEN conjunct2, THEN conjunct2, rule_format,
          OF conjI, OF calls raised])
  show ?thesis
    by (intro conjI) (rule 1, rule 2, rule 3, rule 4)
qed

subsection \<open>The repair setters\<close>

text \<open>
  Claim C6. For both setters, whatever the user and the validation answer:
  \<^item> if the setter returns, then either it returns \<^verbatim>\<open>true\<close> and the new object is the old
    one with the field set to a candidate that passed the check at the very end, or it
    returns \<^verbatim>\<open>false\<close> or raises and the object is the old one. The loop itself has no
    object to change: the field is written once, after the loop;
  \<^item> after any number \<open>k\<close> of rounds in which the candidate failed and the user picked
    another one, a candidate that passes makes the setter return \<^verbatim>\<open>true\<close> with exactly
    that candidate in the field;
  \<^item> after \<open>k\<close> such rounds, a cancel at the confirmation or at the picker makes the setter
    return \<^verbatim>\<open>false\<close> with the object unchanged.
  In the last two cases every bound above \<open>k\<close> on the loop is enough for the setter to
  return. The first candidate of \<^verbatim>\<open>SetLatexCommand\<close> is its argument under
  \<^verbatim>\<open>WIN_ENV\<close> and \<^verbatim>\<open>/Library/TeX/texbin\<close> otherwise.
\<close>

theorem setters_commit_only_validated:
  "(SetGhostscriptCommand E fuel g gs_command s = Some (r, g', s') \<longrightarrow>
      (r = Inr True \<and>
         (\<exists>c s1. g' = g\<lparr>gs_command_' := c\<rparr> \<and> CheckGhostscriptCommand E g c s1 = (True, s')))
      \<or> (r \<noteq> Inr True \<and> g' = g))
   \<and> (gs_rounds E g k (gs_command, FilePath gs_command, s) = Some (c, p, s1)
        \<and> CheckGhostscriptCommand E g c s1 = (True, s2) \<longrightarrow>
      SetGhostscriptCommand E (k + Suc n) g gs_command s
        = Some (Inr True, g\<lparr>gs_command_' := c\<rparr>, s2))
   \<and> (gs_rounds E g k (gs_command, FilePath gs_command, s) = Some (c, p, s1)
        \<and> CheckGhostscriptCommand E g c s1 = (False, s2)
        \<and> OKCancelAlert E gs_form_string (host s2) = (False, h) \<longrightarrow>
      SetGhostscriptCommand E (k + Suc n) g gs_command s = Some (Inr False, g, s2\<lparr>host := h\<rparr>))
   \<and> (gs_rounds E g k (gs_command, FilePath gs_command, s) = Some (c, p, s1)
        \<and> CheckGhostscriptCommand E g c s1 = (False, s2)
        \<and> OKCancelAlert E gs_form_string (host s2) = (True, h)
        \<and> GetFileDialog E ''Select *.exe for the forms Application'' p h
             = ((kCanceledErr, p'), h') \<longrightarrow>
      SetGhostscriptCommand E (k + Suc n) g gs_command s = Some (Inr False, g, s2\<lparr>host := h'\<rparr>))
   \<and> (SetLatexCommand E fuel g latex_path s = Some (r, g', s') \<longrightarrow>
      (r = Inr True \<and>
         (\<exists>q s1. g' = g\<lparr>latex_bin_path_' := q\<rparr> \<and> CheckLatexCommand E g q s1 = (True, s')))
      \<or> (r \<noteq> Inr True \<and> g' = g))
   \<and> (latex_rounds E g k
          (if WIN_ENV E then latex_path else FilePath ''/Library/TeX/texbin'', s) = Some (q, s1)
        \<and> CheckLatexCommand E g q s1 = (True, s2) \<longrightarrow>
      SetLatexCommand E (k + Suc n) g latex_path s
        = Some (Inr True, g\<lparr>latex_bin_path_' := q\<rparr>, s2))
   \<and> (latex_rounds E g k
          (if WIN_ENV E then latex_path else FilePath ''/Library/TeX/texbin'', s) = Some (q, s1)
        \<and> CheckLatexCommand E g q s1 = (False, s2)
        \<and> OKCancelAlert E latex_form_string (host s2) = (False, h) \<longrightarrow>
      SetLatexCommand E (k + Suc n) g latex_path s = Some (Inr False, g, s2\<lparr>host := h\<rparr>))
   \<and> (latex_rounds E g k
          (if WIN_ENV E then latex_path else FilePath ''/Library/TeX/texbin'', s) = Some (q, s1)
        \<and> CheckLatexCommand E g q s1 = (False, s2)
        \<and> OKCancelAlert E latex_form_string (host s2) = (True, h)
        \<and> GetDirectoryDialog E ''Select *.exe for the forms Application'' q h
             = ((kCanceledErr, q'), h') \<longrightarrow>
      SetLatexCommand E (k + Suc n) g latex_path s = Some (Inr False, g, s2\<lparr>host := h'\<rparr>))"
proof (intro conjI impI)
  assume "SetGhostscriptCommand E fuel g gs_command s = Some (r, g', s')"
  then show "(r = Inr True \<and>
         (\<exists>c s1. g' = g\<lparr>gs_command_' := c\<rparr> \<and> CheckGhostscriptCommand E g c s1 = (True, s')))
      \<or> (r \<noteq> Inr True \<and> g' = g)"
    by (rule SetGhostscriptCommand_post)
next
  assume "gs_rounds E g k (gs_command, FilePath gs_command, s) = Some (c, p, s1)
        \<and> CheckGhostscriptCommand E g c s1 = (True, s2)"
  then show "SetGhostscriptCommand E (k + Suc n) g gs_command s
        = Some (Inr True, g\<lparr>gs_command_' := c\<rparr>, s2)"
    by (elim conjE) (rule SetGhostscriptCommand_valid_after_rounds)
next
  assume "gs_rounds E g k (gs_command, FilePath gs_command, s) = Some (c, p, s1)
        \<and> CheckGhostscriptCommand E g c s1 = (False, s2)
        \<and> OKCancelAlert E gs_form_string (host s2) = (False, h)"
  then show "SetGhostscriptCommand E (k + Suc n) g gs_command s
      = Some (Inr False, g, s2\<lparr>host := h\<rparr>)"
    by (elim conjE)
      (rule SetGhostscriptCommand_cancel_after_rounds, assumption, assumption,
        rule SetGhostscriptCommand_body_cancel(1))
next
  assume "gs_rounds E g k (gs_command, FilePath gs_command, s) = Some (c, p, s1)
        \<and> CheckGhostscriptCommand E g c s1 = (False, s2)
        \<and> OKCancelAlert E gs_form_string (host s2) = (True, h)
        \<and> GetFileDialog E ''Select *.exe for the forms Application'' p h
             = ((kCanceledErr, p'), h')"
  then show "SetGhostscriptCommand E (k + Suc n) g gs_command s
      = Some (Inr False, g, s2\<lparr>host := h'\<rparr>)"
    by (elim conjE)
      (rule SetGhostscriptCommand_cancel_after_rounds, assumption, assumption,
        rule SetGhostscriptCommand_body_cancel(2))
next
  assume "SetLatexCommand E fuel g latex_path s = Some (r, g', s')"
  then show "(r = Inr True \<and>
         (\<exists>q s1. g' = g\<lparr>latex_bin_path_' := q\<rparr> \<and> CheckLatexCommand E g q s1 = (True, s')))
      \<or> (r \<noteq> Inr True \<and> g' = g)"
    by (rule SetLatexCommand_post)
next
  assume "latex_rounds E g k
          (if WIN_ENV E then latex_path else FilePath ''/Library/TeX/texbin'', s) = Some (q, s1)
        \<and> CheckLatexCommand E g q s1 = (True, s2)"
  then show "SetLatexCommand E (k + Suc n) g latex_path s
        = Some (Inr True, g\<lparr>latex_bin_path_' := q\<rparr>, s2)"
    by (elim conjE) (rule SetLatexCommand_valid_after_rounds)
next
  assume "latex_rounds E g k
          (if WIN_ENV E then latex_path else FilePath ''/Library/TeX/texbin'', s) = Some (q, s1)
        \<and> CheckLatexCommand E g q s1 = (False, s2)
        \<and> OKCancelAlert E latex_form_string (host s2) = (False, h)"
  then show "SetLatexCommand E (k + Suc n) g latex_path s = Some (Inr False, g, s2\<lparr>host := h\<rparr>)"
    by (elim conjE)
      (rule SetLatexCommand_cancel_after_rounds, assumption, assumption,
        rule SetLatexCommand_body_cancel(1))
next
  assume "latex_rounds E g k
          (if WIN_ENV E then latex_path else FilePath ''/Library/TeX/texbin'', s) = Some (q, s1)
        \<and> CheckLatexCommand E g q s1 = (False, s2)
        \<and> OKCancelAlert E latex_form_string (host s2) = (True, h)
        \<and> GetDirectoryDialog E ''Select *.exe for the forms Application'' q h
             = ((kCanceledErr, q'), h')"
  then show "SetLatexCommand E (k + Suc n) g latex_path s = Some (Inr False, g, s2\<lparr>host := h'\<rparr>)"
    by (elim conjE)
      (rule SetLatexCommand_cancel_after_rounds, assumption, assumption,
        rule SetLatexCommand_body_cancel(2))
qed

theorem setters_commit_only_validated_witness:
  "SetGhostscriptCommand desk_host (Suc (Suc 0)) example_Global ''gs''
       (desk [] [True] [(kNoErr, FilePath ''/usr/bin/gs'')])
     = Some (Inr True, example_Global\<lparr>gs_command_' := ''/usr/bin/gs''\<rparr>,
         desk [dquote @ ''gs'' @ dquote @ '' -v'', dquote @ ''/usr/bin/gs'' @ dquote @ '' -v'']
           [] [])
   \<and> SetGhostscriptCommand desk_host (Suc 0) example_Global ''gs'' (desk [] [False] [])
     = Some (Inr False, example_Global, desk [dquote @ ''gs'' @ dquote @ '' -v''] [] [])
   \<and> SetGhostscriptCommand desk_host (Suc 0) example_Global ''gs'' (desk [] [True] [])
     = Some (Inr False, example_Global, desk [dquote @ ''gs'' @ dquote @ '' -v''] [] [])
   \<and> SetLatexCommand desk_host (Suc 0) example_Global (FilePath ''/nowhere'') (desk [] [] [])
     = Some (Inr True, example_Global\<lparr>latex_bin_path_' := FilePath ''/Library/TeX/texbin''\<rparr>,
         desk [dquote @ ''/Library/TeX/texbin/pdflatex'' @ dquote @ '' -version''] [] [])
   \<and> SetLatexCommand (desk_host\<lparr>WIN_ENV := True\<rparr>) (Suc 0) example_Global
       (FilePath ''/nowhere'') (desk [] [False] [])
     = Some (Inr False, example_Global, desk [] [] [])"
proof -
  have round: "gs_rounds desk_host example_Global (Suc 0)
      (''gs'', FilePath ''gs'', desk [] [True] [(kNoErr, FilePath ''/usr/bin/gs'')])
      = Some (''/usr/bin/gs'', FilePath ''/usr/bin/gs'',
          desk [dquote @ ''gs'' @ dquote @ '' -v''] [] [])"
    by (simp add: desk_gs_check desk_gs_body)
  have valid: "CheckGhostscriptCommand desk_host example_Global ''/usr/bin/gs''
      (desk [dquote @ ''gs'' @ dquote @ '' -v''] [] [])
      = (True, desk [dquote @ ''gs'' @ dquote @ '' -v'',
                     dquote @ ''/usr/bin/gs'' @ dquote @ '' -v''] [] [])"
    by (simp add: desk_gs_check)
  have 1: "SetGhostscriptCommand desk_host (Suc 0 + Suc 0) example_Global ''gs''
       (desk [] [True] [(kNoErr, FilePath ''/usr/bin/gs'')])
     = Some (Inr True, example_Global\<lparr>gs_command_' := ''/usr/bin/gs''\<rparr>,
         desk [dquote @ ''gs'' @ dquote @ '' -v'', dquote @ ''/usr/bin/gs'' @ dquote @ '' -v'']
           [] [])"
    by (rule setters_commit_only_validated [THEN conjunct2, THEN conjunct1, THEN mp,
          OF conjI, OF round valid])
  have none: "gs_rounds desk_host example_Global 0 (''gs'', FilePath ''gs'', desk [] as [])
      = Some (''gs'', FilePath ''gs'', desk [] as [])" for as
    by simp
  have invalid: "CheckGhostscriptCommand desk_host example_Global ''gs'' (desk [] as [])
      = (False, desk [dquote @ ''gs'' @ dquote @ '' -v''] as [])" for as
    by (simp add: desk_gs_check)
  have no: "OKCancelAlert desk_host gs_form_string
      (host (desk [dquote @ ''gs'' @ dquote @ '' -v''] [False] []))
      = (False, host (desk [dquote @ ''gs'' @ dquote @ '' -v''] [] []))"
    by (rule desk_gs_body(2))
  have 2: "SetGhostscriptCommand desk_host (0 + Suc 0) example_Global ''gs'' (desk [] [False] [])
     = Some (Inr False, example_Global,
         (desk [dquote @ ''gs'' @ dquote @ '' -v''] [False] [])
           \<lparr>host := host (desk [dquote @ ''gs'' @ dquote @ '' -v''] [] [])\<rparr>)"
    by (rule setters_commit_only_validated [THEN conjunct2, THEN conjunct2, THEN conjunct1,
          THEN mp, OF conjI, OF none conjI, OF invalid no])
  have ok: "OKCancelAlert desk_host gs_form_string
      (host (desk [dquote @ ''gs'' @ dquote @ '' -v''] [True] []))
      = (True, host (desk [dquote @ ''gs'' @ dquote @ '' -v''] [] []))"
    by (rule desk_gs_body(2))
  have cancel: "GetFileDialog desk_host ''Select *.exe for the forms Application''
      (FilePath ''gs'') (host (desk [dquote @ ''gs'' @ dquote @ '' -v''] [] []))
      = ((kCanceledErr, FilePath ''gs''), host (desk [dquote @ ''gs'' @ dquote @ '' -v''] [] []))"
    by (rule desk_gs_body(3))
  have 3: "SetGhostscriptCommand desk_host (0 + Suc 0) example_Global ''gs'' (desk [] [True] [])
     = Some (Inr False, example_Global,
         (desk [dquote @ ''gs'' @ dquote @ '' -v''] [True] [])
           \<lparr>host := host (desk [dquote @ ''gs'' @ dquote @ '' -v''] [] [])\<rparr>)"
    by (rule setters_commit_only_validated [THEN conjunct2, THEN conjunct2, THEN conjunct2,
          THEN conjunct1, THEN mp, OF conjI, OF none conjI, OF invalid conjI, OF ok cancel])
  have start: "latex_rounds desk_host example_Global 0
      (if WIN_ENV desk_host then FilePath ''/nowhere'' else FilePath ''/Library/TeX/texbin'',
       desk [] [] [])
      = Some (FilePath ''/Library/TeX/texbin'', desk [] [] [])"
    by (simp add: desk_host_fs)
  have valid: "CheckLatexCommand desk_host example_Global (FilePath ''/Library/TeX/texbin'')
      (desk [] [] [])
      = (True, desk [dquote @ ''/Library/TeX/texbin/pdflatex'' @ dquote @ '' -version''] [] [])"
    by (simp add: desk_latex_check)
  have 4: "SetLatexCommand desk_host (0 + Suc 0) example_Global (FilePath ''/nowhere'')
       (desk [] [] [])
     = Some (Inr True, example_Global\<lparr>latex_bin_path_' := FilePath ''/Library/TeX/texbin''\<rparr>,
         desk [dquote @ ''/Library/TeX/texbin/pdflatex'' @ dquote @ '' -version''] [] [])"
    by (rule setters_commit_only_validated [THEN conjunct2, THEN conjunct2, THEN conjunct2,
          THEN conjunct2, THEN conjunct2, THEN conjunct1, THEN mp, OF conjI, OF start valid])
  have start': "latex_rounds (desk_host\<lparr>WIN_ENV := True\<rparr>) example_Global 0
      (if WIN_ENV (desk_host\<lparr>WIN_ENV := True\<rparr>) then FilePath ''/nowhere''
       else FilePath ''/Library/TeX/texbin'', desk [] [False] [])
      = Some (FilePath ''/nowhere'', desk [] [False] [])"
    by simp
  have invalid: "CheckLatexCommand (desk_host\<lparr>WIN_ENV := True\<rparr>) example_Global
      (FilePath ''/nowhere'') (desk [] [False] []) = (False, desk [] [False] [])"
    by (rule desk_latex_check(4))
  have no: "OKCancelAlert (desk_host\<lparr>WIN_ENV := True\<rparr>) latex_form_string
      (host (desk [] [False] [])) = (False, host (desk [] [] []))"
    by (simp add: desk_gs_body(2))
  have 5: "SetLatexCommand (desk_host\<lparr>WIN_ENV := True\<rparr>) (0 + Suc 0) example_Global
       (FilePath ''/nowhere'') (desk [] [False] [])
     = Some (Inr False, example_Global, (desk [] [False] [])\<lparr>host := host (desk [] [] [])\<rparr>)"
    by (rule setters_commit_only_validated [THEN conjunct2, THEN conjunct2, THEN conjunct2,
          THEN conjunct2, THEN conjunct2, THEN conjunct2, THEN conjunct1, THEN mp,
          OF conjI, OF start' conjI, OF invalid no])
  show ?thesis
    using 1 2 3 4 5 by (simp add: desk_gs_body(5))
qed

text \<open>
  Claim C7. Let the part of the constructor before the validation end without an exception,
  with the object \<open>g\<close>.
  \<^item> If the stored renderer command fails the check and the setter, applied to the command
    that the discovery proposes, returns \<^verbatim>\<open>false\<close>, the constructor returns at once: its
    final state is the one the setter left, the object is \<open>g\<close>, and every command line run
    since the loading is a renderer probe (quoted candidate and \<^verbatim>\<open> -v\<close>), so the check of
    the typesetting engine was not run.
  \<^item> If the renderer command is valid, or was repaired, and the stored typesetting path
    fails its check, the field is first set to the empty path, and the constructor does
    what \<^verbatim>\<open>SetLatexCommand\<close> does from that object; if the setter then returns
    \<^verbatim>\<open>false\<close>, the constructor ends with the empty path in the field.
\<close>

theorem ctor_aborts_after_failed_repair:
  "(initialise_and_load E g0 s0 = (Inr (), g, s)
      \<and> CheckGhostscriptCommand E g (gs_command_' g) s = (False, s1)
      \<and> SetGhostscriptCommand E fuel g (GetGhostScriptCommand E (host s1)) s1
          = Some (Inr False, g', s')
    \<longrightarrow> Global_ctor E fuel g0 s0 = Some (Inr (), g, s')
        \<and> g' = g
        \<and> (\<exists>cs. exec_calls s'
               = exec_calls s @ map (\<lambda>c. dquote @ c @ dquote @ '' -v'') (gs_command_' g # cs)))
   \<and> (initialise_and_load E g0 s0 = (Inr (), g, s)
      \<and> CheckGhostscriptCommand E g (gs_command_' g) s = (True, s1)
      \<and> CheckLatexCommand E g (latex_bin_path_' g) s1 = (False, s2)
    \<longrightarrow> Global_ctor E fuel g0 s0
          = (case SetLatexCommand E fuel (g\<lparr>latex_bin_path_' := FilePath ''''\<rparr>)
                    (FilePath '''') s2 of
               None \<Rightarrow> None
             | Some (Inl e, g', s') \<Rightarrow> Some (Inl e, g', s')
             | Some (Inr b, g', s') \<Rightarrow> Some (Inr (), g', s')))
   \<and> (initialise_and_load E g0 s0 = (Inr (), g, s)
      \<and> CheckGhostscriptCommand E g (gs_command_' g) s = (False, s1)
      \<and> SetGhostscriptCommand E fuel g (GetGhostScriptCommand E (host s1)) s1
          = Some (Inr True, g1, s1')
      \<and> CheckLatexCommand E g1 (latex_bin_path_' g1) s1' = (False, s2)
    \<longrightarrow> Global_ctor E fuel g0 s0
          = (case SetLatexCommand E fuel (g1\<lparr>latex_bin_path_' := FilePath ''''\<rparr>)
                    (FilePath '''') s2 of
               None \<Rightarrow> None
             | Some (Inl e, g', s') \<Rightarrow> Some (Inl e, g', s')
             | Some (Inr b, g', s') \<Rightarrow> Some (Inr (), g', s')))
   \<and> (initialise_and_load E g0 s0 = (Inr (), g, s)
      \<and> CheckGhostscriptCommand E g (gs_command_' g) s = (True, s1)
      \<and> CheckLatexCommand E g (latex_bin_path_' g) s1 = (False, s2)
      \<and> SetLatexCommand E fuel (g\<lparr>latex_bin_path_' := FilePath ''''\<rparr>) (FilePath '''') s2
          = Some (Inr False, g', s')
    \<longrightarrow> Global_ctor E fuel g0 s0 = Some (Inr (), g\<lparr>latex_bin_path_' := FilePath ''''\<rparr>, s'))"
proof (intro conjI impI)
  assume a: "initialise_and_load E g0 s0 = (Inr (), g, s)
      \<and> CheckGhostscriptCommand E g (gs_command_' g) s = (False, s1)
      \<and> SetGhostscriptCommand E fuel g (GetGhostScriptCommand E (host s1)) s1
          = Some (Inr False, g', s')"
  then have same: "g' = g"
    by (auto dest: SetGhostscriptCommand_False_unchanged)
  with a show "Global_ctor E fuel g0 s0 = Some (Inr (), g, s')"
    by (simp add: Global_ctor_def validate_commands_def)
  from same show "g' = g" .
  from a obtain cs where
    "exec_calls s' = exec_calls s1 @ map (\<lambda>c. dquote @ c @ dquote @ '' -v'') cs"
    using SetGhostscriptCommand_calls by blast
  moreover from a have "CheckGhostscriptCommand E g (gs_command_' g) s = (False, s1)"
    by simp
  then have "exec_calls s1 = exec_calls s @ [dquote @ gs_command_' g @ dquote @ '' -v'']"
    by (rule CheckGhostscriptCommand_calls)
  ultimately have "exec_calls s'
      = exec_calls s @ map (\<lambda>c. dquote @ c @ dquote @ '' -v'') (gs_command_' g # cs)"
    by simp
  then show "\<exists>cs. exec_calls s'
      = exec_calls s @ map (\<lambda>c. dquote @ c @ dquote @ '' -v'') (gs_command_' g # cs)"
    by blast
next
  assume "initialise_and_load E g0 s0 = (Inr (), g, s)
      \<and> CheckGhostscriptCommand E g (gs_command_' g) s = (True, s1)
      \<and> CheckLatexCommand E g (latex_bin_path_' g) s1 = (False, s2)"
  then show "Global_ctor E fuel g0 s0
          = (case SetLatexCommand E fuel (g\<lparr>latex_bin_path_' := FilePath ''''\<rparr>)
                    (FilePath '''') s2 of
               None \<Rightarrow> None
             | Some (Inl e, g', s') \<Rightarrow> Some (Inl e, g', s')
             | Some (Inr b, g', s') \<Rightarrow> Some (Inr (), g', s'))"
    by (simp add: Global_ctor_def validate_commands_def validate_latex_command_def)
next
  assume "initialise_and_load E g0 s0 = (Inr (), g, s)
      \<and> CheckGhostscriptCommand E g (gs_command_' g) s = (False, s1)
      \<and> SetGhostscriptCommand E fuel g (GetGhostScriptCommand E (host s1)) s1
          = Some (Inr True, g1, s1')
      \<and> CheckLatexCommand E g1 (latex_bin_path_' g1) s1' = (False, s2)"
  then show "Global_ctor E fuel g0 s0
          = (case SetLatexCommand E fuel (g1\<lparr>latex_bin_path_' := FilePath ''''\<rparr>)
                    (FilePath '''') s2 of
               None \<Rightarrow> None
             | Some (Inl e, g', s') \<Rightarrow> Some (Inl e, g', s')
             | Some (Inr b, g', s') \<Rightarrow> Some (Inr (), g', s'))"
    by (simp add: Global_ctor_def validate_commands_def validate_latex_command_def)
next
  assume a: "initialise_and_load E g0 s0 = (Inr (), g, s)
      \<and> CheckGhostscriptCommand E g (gs_command_' g) s = (True, s1)
      \<and> CheckLatexCommand E g (latex_bin_path_' g) s1 = (False, s2)
      \<and> SetLatexCommand E fuel (g\<lparr>latex_bin_path_' := FilePath ''''\<rparr>) (FilePath '''') s2
          = Some (Inr False, g', s')"
  then have "g' = g\<lparr>latex_bin_path_' := FilePath ''''\<rparr>"
    by (auto dest: SetLatexCommand_False_unchanged)
  with a show "Global_ctor E fuel g0 s0
      = Some (Inr (), g\<lparr>latex_bin_path_' := FilePath ''''\<rparr>, s')"
    by (simp add: Global_ctor_def validate_commands_def validate_latex_command_def)
qed

theorem ctor_aborts_after_failed_repair_witness:
  "Global_ctor desk_host (Suc 0) example_Global (desk [] [False] [])
     = Some (Inr (), example_Global,
         desk [dquote @ dquote @ '' -v'', dquote @ ''gs'' @ dquote @ '' -v''] [] [])
   \<and> Global_ctor desk_host_without_tex (Suc (Suc 0)) example_Global
       (desk [] [True, False] [(kNoErr, FilePath ''/usr/bin/gs'')])
     = Some (Inr (), example_Global\<lparr>gs_command_' := ''/usr/bin/gs''\<rparr>,
         desk [dquote @ dquote @ '' -v'', dquote @ ''gs'' @ dquote @ '' -v'',
               dquote @ ''/usr/bin/gs'' @ dquote @ '' -v'', ''pdflatex -version'',
               dquote @ ''/Library/TeX/texbin/pdflatex'' @ dquote @ '' -version''] [] [])"
proof -
  have stored: "gs_command_' example_Global = ''''"
    "latex_bin_path_' (example_Global\<lparr>gs_command_' := ''/usr/bin/gs''\<rparr>) = FilePath ''''"
    "example_Global\<lparr>gs_command_' := ''/usr/bin/gs'', latex_bin_path_' := FilePath ''''\<rparr>
       = example_Global\<lparr>gs_command_' := ''/usr/bin/gs''\<rparr>"
    by (simp_all add: example_Global_def)
  have load: "initialise_and_load desk_host example_Global (desk [] [False] [])
      = (Inr (), example_Global, desk [] [False] [])"
    by (rule desk_no_settings_file(1))
  have check: "CheckGhostscriptCommand desk_host example_Global (gs_command_' example_Global)
      (desk [] [False] []) = (False, desk [dquote @ dquote @ '' -v''] [False] [])"
    by (simp add: stored desk_gs_check_empty)
  have repair: "SetGhostscriptCommand desk_host (Suc 0) example_Global
      (GetGhostScriptCommand desk_host (host (desk [dquote @ dquote @ '' -v''] [False] [])))
      (desk [dquote @ dquote @ '' -v''] [False] [])
      = Some (Inr False, example_Global,
          desk [dquote @ dquote @ '' -v'', dquote @ ''gs'' @ dquote @ '' -v''] [] [])"
    by (simp add: desk_host_misc(8) desk_run_gs(2))
  have 1: "Global_ctor desk_host (Suc 0) example_Global (desk [] [False] [])
     = Some (Inr (), example_Global,
         desk [dquote @ dquote @ '' -v'', dquote @ ''gs'' @ dquote @ '' -v''] [] [])"
    by (rule ctor_aborts_after_failed_repair [THEN conjunct1, THEN mp, THEN conjunct1,
          OF conjI, OF load conjI, OF check repair])
  have load': "initialise_and_load desk_host_without_tex example_Global
      (desk [] [True, False] [(kNoErr, FilePath ''/usr/bin/gs'')])
      = (Inr (), example_Global, desk [] [True, False] [(kNoErr, FilePath ''/usr/bin/gs'')])"
    by (rule desk_no_settings_file(2))
  have check': "CheckGhostscriptCommand desk_host_without_tex example_Global
      (gs_command_' example_Global)
      (desk [] [True, False] [(kNoErr, FilePath ''/usr/bin/gs'')])
      = (False, desk [dquote @ dquote @ '' -v''] [True, False]
           [(kNoErr, FilePath ''/usr/bin/gs'')])"
    by (simp add: stored desk_without_tex_gs_check)
  have repair': "SetGhostscriptCommand desk_host_without_tex (Suc (Suc 0)) example_Global
      (GetGhostScriptCommand desk_host_without_tex
        (host (desk [dquote @ dquote @ '' -v''] [True, False]
           [(kNoErr, FilePath ''/usr/bin/gs'')])))
      (desk [dquote @ dquote @ '' -v''] [True, False] [(kNoErr, FilePath ''/usr/bin/gs'')])
      = Some (Inr True, example_Global\<lparr>gs_command_' := ''/usr/bin/gs''\<rparr>,
          desk [dquote @ dquote @ '' -v'', dquote @ ''gs'' @ dquote @ '' -v'',
                dquote @ ''/usr/bin/gs'' @ dquote @ '' -v''] [False] [])"
    by (simp add: desk_host_without_tex_sel desk_host_misc(8) desk_without_tex_run_gs)
  have latex: "CheckLatexCommand desk_host_without_tex
      (example_Global\<lparr>gs_command_' := ''/usr/bin/gs''\<rparr>)
      (latex_bin_path_' (example_Global\<lparr>gs_command_' := ''/usr/bin/gs''\<rparr>))
      (desk [dquote @ dquote @ '' -v'', dquote @ ''gs'' @ dquote @ '' -v'',
             dquote @ ''/usr/bin/gs'' @ dquote @ '' -v''] [False] [])
      = (False, desk [dquote @ dquote @ '' -v'', dquote @ ''gs'' @ dquote @ '' -v'',
             dquote @ ''/usr/bin/gs'' @ dquote @ '' -v'', ''pdflatex -version''] [False] [])"
    by (simp add: stored desk_without_tex_latex_check)
  have 2: "Global_ctor desk_host_without_tex (Suc (Suc 0)) example_Global
       (desk [] [True, False] [(kNoErr, FilePath ''/usr/bin/gs'')])
     = Some (Inr (), example_Global\<lparr>gs_command_' := ''/usr/bin/gs''\<rparr>,
         desk [dquote @ dquote @ '' -v'', dquote @ ''gs'' @ dquote @ '' -v'',
               dquote @ ''/usr/bin/gs'' @ dquote @ '' -v'', ''pdflatex -version'',
               dquote @ ''/Library/TeX/texbin/pdflatex'' @ dquote @ '' -version''] [] [])"
    using ctor_aborts_after_failed_repair [THEN conjunct2, THEN conjunct2, THEN conjunct1,
        THEN mp, OF conjI, OF load' conjI, OF check' conjI, OF repair' latex]
    by (simp add: desk_without_tex_run_latex stored)
  show ?thesis
    using 1 2 by (intro conjI)
qed

subsection \<open>The singleton\<close>

text \<open>
  Claim C8. As long as the pointer \<^verbatim>\<open>_l2a_global\<close> is null, each accessor raises the
  exception of \<^verbatim>\<open>CheckGlobal\<close> instead of returning: the read-only accessor
  \<^verbatim>\<open>L2A::Global\<close>, the mutable accessor, the plugin accessor (whatever the plugin pointer
  is), and the application context built on the plugin accessor.
\<close>

theorem accessors_fail_before_construction:
  assumes "l2a_global G = None"
  shows "L2A_Global G = Inl (L2A_Exception ''The global object is not defined!'')
       \<and> GlobalMutable G = Inl (L2A_Exception ''The global object is not defined!'')
       \<and> GlobalPluginMutable G = Inl (L2A_Exception ''The global object is not defined!'')
       \<and> GlobalPluginAppContext app_context G
            = Inl (L2A_Exception ''The global object is not defined!'')"
  using assms
  by (simp add: L2A_Global_def GlobalMutable_def GlobalPluginMutable_def
      GlobalPluginAppContext_def CheckGlobal_def l2a_error_def)

theorem accessors_fail_before_construction_witness:
  "L2A_Global \<lparr>l2a_global = None, l2a_plugin = Some (7::nat)\<rparr>
     = Inl (L2A_Exception ''The global object is not defined!'')
   \<and> GlobalMutable \<lparr>l2a_global = None, l2a_plugin = Some (7::nat)\<rparr>
     = Inl (L2A_Exception ''The global object is not defined!'')
   \<and> GlobalPluginMutable \<lparr>l2a_global = None, l2a_plugin = Some (7::nat)\<rparr>
     = Inl (L2A_Exception ''The global object is not defined!'')"
proof -
  have null: "l2a_global \<lparr>l2a_global = None, l2a_plugin = Some (7::nat)\<rparr> = None"
    by simp
  show ?thesis
    using accessors_fail_before_construction [OF null, of id] by simp
qed

text \<open>
  Claim C9. The result of \<^verbatim>\<open>CheckLatexCommand\<close> and the state it leaves do not depend on
  the field \<^verbatim>\<open>latex_engine_\<close>, nor on any other field of the object: two objects give the
  same result for the same candidate in the same state. The command line it runs, if any,
  is \<^verbatim>\<open>pdflatex -version\<close> or the quoted \<^verbatim>\<open><dir>/pdflatex\<close> or
  \<^verbatim>\<open><dir>/pdflatex.exe\<close> with \<^verbatim>\<open> -version\<close>: the name \<^verbatim>\<open>pdflatex\<close> is fixed.
\<close>

theorem CheckLatexCommand_independent_of_engine:
  "CheckLatexCommand E (g\<lparr>latex_engine_' := engine\<rparr>) path_latex s
     = CheckLatexCommand E g path_latex s
   \<and> (\<forall>g'. CheckLatexCommand E g' path_latex s = CheckLatexCommand E g path_latex s)
   \<and> exec_calls (snd (CheckLatexCommand E g path_latex s)) \<in>
       {exec_calls s,
        exec_calls s @ [''pdflatex -version''],
        exec_calls s @ [dquote @ GetFullPath path_latex @ ''/pdflatex'' @ dquote @ '' -version''],
        exec_calls s
          @ [dquote @ GetFullPath path_latex @ ''/pdflatex.exe'' @ dquote @ '' -version'']}"
  by (simp add: CheckLatexCommand_def Let_def probe_command_eq AddComponent_GetFullPath)

text \<open>
  Claim C10. Whenever a setter returns, with \<^verbatim>\<open>true\<close>, with \<^verbatim>\<open>false\<close> or with an
  exception, the object it leaves is the old one except possibly for the setter's own
  field: \<^verbatim>\<open>gs_command_\<close> for \<^verbatim>\<open>SetGhostscriptCommand\<close>, \<^verbatim>\<open>latex_bin_path_\<close> for
  \<^verbatim>\<open>SetLatexCommand\<close>. The equation says that putting the new value of that field into the
  old object gives the new object, so the other eight fields are equal.
\<close>

theorem setters_frame:
  "(SetGhostscriptCommand E fuel g gs_command s = Some (r, g', s')
      \<longrightarrow> g' = g\<lparr>gs_command_' := gs_command_' g'\<rparr>)
   \<and> (SetLatexCommand E fuel g latex_path s = Some (r, g', s')
      \<longrightarrow> g' = g\<lparr>latex_bin_path_' := latex_bin_path_' g'\<rparr>)"
  by (auto simp: SetGhostscriptCommand_def SetLatexCommand_def Let_def
      split: option.splits prod.splits flow.splits)

theorem setters_frame_witness:
  "SetGhostscriptCommand desk_host (Suc (Suc 0)) example_Global ''gs''
       (desk [] [True] [(kNoErr, FilePath ''/usr/bin/gs'')])
     = Some (Inr True, example_Global\<lparr>gs_command_' := ''/usr/bin/gs''\<rparr>,
         desk [dquote @ ''gs'' @ dquote @ '' -v'', dquote @ ''/usr/bin/gs'' @ dquote @ '' -v'']
           [] [])
   \<and> example_Global\<lparr>gs_command_' := ''/usr/bin/gs''\<rparr>
     = example_Global
         \<lparr>gs_command_' := gs_command_' (example_Global\<lparr>gs_command_' := ''/usr/bin/gs''\<rparr>)\<rparr>
   \<and> SetLatexCommand desk_host (Suc 0) example_Global (FilePath '''') (desk [] [] [])
     = Some (Inr True, example_Global\<lparr>latex_bin_path_' := FilePath ''/Library/TeX/texbin''\<rparr>,
         desk [dquote @ ''/Library/TeX/texbin/pdflatex'' @ dquote @ '' -version''] [] [])
   \<and> example_Global\<lparr>latex_bin_path_' := FilePath ''/Library/TeX/texbin''\<rparr>
     = example_Global
         \<lparr>latex_bin_path_' :=
            latex_bin_path_' (example_Global\<lparr>latex_bin_path_' := FilePath ''/Library/TeX/texbin''\<rparr>)\<rparr>"
proof -
  have gs: "SetGhostscriptCommand desk_host (Suc (Suc 0)) example_Global ''gs''
       (desk [] [True] [(kNoErr, FilePath ''/usr/bin/gs'')])
     = Some (Inr True, example_Global\<lparr>gs_command_' := ''/usr/bin/gs''\<rparr>,
         desk [dquote @ ''gs'' @ dquote @ '' -v'', dquote @ ''/usr/bin/gs'' @ dquote @ '' -v'']
           [] [])"
    using desk_run_gs(1) [of example_Global "[]"] by simp
  have latex: "SetLatexCommand desk_host (Suc 0) example_Global (FilePath '''') (desk [] [] [])
     = Some (Inr True, example_Global\<lparr>latex_bin_path_' := FilePath ''/Library/TeX/texbin''\<rparr>,
         desk [dquote @ ''/Library/TeX/texbin/pdflatex'' @ dquote @ '' -version''] [] [])"
    using desk_run_latex [of 0 example_Global "FilePath ''''" "[]" "[]" "[]"] by simp
  show ?thesis
    by (intro conjI)
      (rule gs,
       rule setters_frame [THEN conjunct1, THEN mp, OF gs],
       rule latex,
       rule setters_frame [THEN conjunct2, THEN mp, OF latex])
qed


end
